theory Spec2Isabelle
  imports Complex_Main "HOL-Library.Word"
begin

section \<open>JavaScript values used by \<open>main.ts\<close>\<close>

subsection \<open>Numbers\<close>

text \<open>
  A JavaScript number is an IEEE-754 double. The model keeps the three kinds of
  non-finite value apart (\<open>NaN\<close>, \<open>+Infinity\<close>, \<open>-Infinity\<close>) and carries a finite
  value as the real number it stands for. Every arithmetic result passes through
  \<open>overflow\<close>, which turns a real outside the double range into an infinity, as
  round-to-nearest does. What is not modelled: the rounding of an in-range result to 53
  bits (finite results are exact here), and the sign of a zero (\<open>Fin 0\<close> stands for
  both \<open>+0\<close> and \<open>-0\<close>).
\<close>

datatype jsnum = NaN | PInf | NInf | Fin real

definition max_bound :: real where
  \<comment> \<open>The least magnitude that rounds to an infinity: halfway between the largest
      double and \<open>2 ^ 1024\<close>.\<close>
  "max_bound = 2 ^ 1024 - 2 ^ 970"

definition overflow :: "real \<Rightarrow> jsnum" where
  "overflow r = (if max_bound \<le> r then PInf else if r \<le> - max_bound then NInf else Fin r)"

fun isNaN :: "jsnum \<Rightarrow> bool" where
  "isNaN NaN = True"
| "isNaN _ = False"

fun isFinite :: "jsnum \<Rightarrow> bool" where
  "isFinite (Fin r) = True"
| "isFinite _ = False"

fun js_neg :: "jsnum \<Rightarrow> jsnum" where
  "js_neg NaN = NaN"
| "js_neg PInf = NInf"
| "js_neg NInf = PInf"
| "js_neg (Fin r) = Fin (- r)"

fun js_add :: "jsnum \<Rightarrow> jsnum \<Rightarrow> jsnum" where
  "js_add NaN _ = NaN"
| "js_add _ NaN = NaN"
| "js_add PInf NInf = NaN"
| "js_add NInf PInf = NaN"
| "js_add PInf _ = PInf"
| "js_add NInf _ = NInf"
| "js_add _ PInf = PInf"
| "js_add _ NInf = NInf"
| "js_add (Fin a) (Fin b) = overflow (a + b)"

definition js_sub :: "jsnum \<Rightarrow> jsnum \<Rightarrow> jsnum" where
  "js_sub x y = js_add x (js_neg y)"

fun sign_inf :: "bool \<Rightarrow> jsnum" where
  "sign_inf True = PInf"
| "sign_inf False = NInf"

fun js_mul :: "jsnum \<Rightarrow> jsnum \<Rightarrow> jsnum" where
  "js_mul NaN _ = NaN"
| "js_mul _ NaN = NaN"
| "js_mul PInf PInf = PInf"
| "js_mul PInf NInf = NInf"
| "js_mul NInf PInf = NInf"
| "js_mul NInf NInf = PInf"
| "js_mul PInf (Fin b) = (if b = 0 then NaN else sign_inf (0 < b))"
| "js_mul NInf (Fin b) = (if b = 0 then NaN else sign_inf (b < 0))"
| "js_mul (Fin a) PInf = (if a = 0 then NaN else sign_inf (0 < a))"
| "js_mul (Fin a) NInf = (if a = 0 then NaN else sign_inf (a < 0))"
| "js_mul (Fin a) (Fin b) = overflow (a * b)"

text \<open>
  Division. A finite non-zero number divided by a zero is an infinity whose sign depends
  on the sign of the zero, which the model does not have; it takes the zero as \<open>+0\<close>.
  The program divides by the literals 60, 3600, 24, 4 and 15 only.
\<close>

fun js_div :: "jsnum \<Rightarrow> jsnum \<Rightarrow> jsnum" where
  "js_div NaN _ = NaN"
| "js_div _ NaN = NaN"
| "js_div PInf PInf = NaN"
| "js_div PInf NInf = NaN"
| "js_div NInf PInf = NaN"
| "js_div NInf NInf = NaN"
| "js_div PInf (Fin b) = sign_inf (0 \<le> b)"
| "js_div NInf (Fin b) = sign_inf (b < 0)"
| "js_div (Fin a) PInf = Fin 0"
| "js_div (Fin a) NInf = Fin 0"
| "js_div (Fin a) (Fin b) =
     (if b = 0 then (if a = 0 then NaN else sign_inf (0 < a)) else overflow (a / b))"

text \<open>\<open>4 ** y\<close>: the exponentiation operator at the base the program uses.\<close>

fun js_pow4 :: "jsnum \<Rightarrow> jsnum" where
  "js_pow4 NaN = NaN"
| "js_pow4 PInf = PInf"
| "js_pow4 NInf = Fin 0"
| "js_pow4 (Fin y) = overflow (4 powr y)"

fun Math_sin :: "jsnum \<Rightarrow> jsnum" where
  "Math_sin (Fin r) = Fin (sin r)"
| "Math_sin _ = NaN"

fun Math_cos :: "jsnum \<Rightarrow> jsnum" where
  "Math_cos (Fin r) = Fin (cos r)"
| "Math_cos _ = NaN"

definition round_to :: "nat \<Rightarrow> real \<Rightarrow> real" where
  \<comment> \<open>rounding to \<open>f\<close> decimals, a tie away from zero\<close>
  "round_to f r = sgn r * real_of_int \<lfloor>\<bar>r\<bar> * 10 ^ f + 1 / 2\<rfloor> / 10 ^ f"

text \<open>
  \<open>parseFloat(x.toFixed(f))\<close>, the one way the program uses \<open>toFixed\<close>. \<open>toFixed\<close>
  prints \<open>NaN\<close> and the infinities by name and a magnitude of at least \<open>10 ^ 21\<close> in
  full, so \<open>parseFloat\<close> reads the same number back. Otherwise it prints the integer
  \<open>n\<close> nearest to \<open>|x| * 10 ^ f\<close> (the larger one on a tie) with \<open>f\<close> decimals and the
  sign of \<open>x\<close>, and \<open>parseFloat\<close> reads \<open>n / 10 ^ f\<close> with that sign.
\<close>

definition toFixed_parsed :: "nat \<Rightarrow> jsnum \<Rightarrow> jsnum" where
  "toFixed_parsed f x =
     (case x of
        Fin r \<Rightarrow> if 10 ^ 21 \<le> \<bar>r\<bar> then Fin r else Fin (round_to f r)
      | _ \<Rightarrow> x)"

subsection \<open>Strings\<close>

text \<open>A JavaScript string is a sequence of 16-bit code units.\<close>

type_synonym code_unit = "16 word"
type_synonym jsstring = "code_unit list"

definition js :: "string \<Rightarrow> jsstring" where
  \<comment> \<open>a literal of the source\<close>
  "js s = map of_char s"

definition isWhiteSpace :: "code_unit \<Rightarrow> bool" where
  \<comment> \<open>\<open>WhiteSpace\<close> and \<open>LineTerminator\<close> of ECMAScript, what \<open>trim\<close>,
      \<open>parseInt\<close> and \<open>parseFloat\<close> strip\<close>
  "isWhiteSpace c \<longleftrightarrow>
     (0x09 \<le> c \<and> c \<le> 0x0D) \<or> c = 0x20 \<or> c = 0xA0 \<or> c = 0x1680 \<or>
     (0x2000 \<le> c \<and> c \<le> 0x200A) \<or> c = 0x2028 \<or> c = 0x2029 \<or> c = 0x202F \<or>
     c = 0x205F \<or> c = 0x3000 \<or> c = 0xFEFF"

definition trimStart :: "jsstring \<Rightarrow> jsstring" where
  "trimStart s = dropWhile isWhiteSpace s"

definition trim :: "jsstring \<Rightarrow> jsstring" where
  "trim s = rev (dropWhile isWhiteSpace (rev (dropWhile isWhiteSpace s)))"

definition substring :: "jsstring \<Rightarrow> nat \<Rightarrow> nat \<Rightarrow> jsstring" where
  \<comment> \<open>both indices are clamped to the length, and swapped when out of order\<close>
  "substring s a b =
     (let a' = min a (length s); b' = min b (length s);
          lo = min a' b'; hi = max a' b'
      in take (hi - lo) (drop lo s))"

fun split_from :: "jsstring \<Rightarrow> jsstring \<Rightarrow> jsstring list" where
  "split_from cur [] = [rev cur]"
| "split_from cur (c # cs) =
     (if c = 0x0A then rev cur # split_from [] cs else split_from (c # cur) cs)"

definition split_lines :: "jsstring \<Rightarrow> jsstring list" where
  \<comment> \<open>\<open>data.split("\n")\<close>\<close>
  "split_lines s = split_from [] s"

definition charAt0 :: "jsstring \<Rightarrow> jsstring option" where
  \<comment> \<open>\<open>st[0]\<close>: a one-unit string, or \<open>undefined\<close> on the empty string\<close>
  "charAt0 s = (case s of [] \<Rightarrow> None | c # _ \<Rightarrow> Some [c])"

subsection \<open>\<open>parseInt\<close> and \<open>parseFloat\<close>\<close>

definition isDigit :: "code_unit \<Rightarrow> bool" where
  "isDigit c \<longleftrightarrow> 0x30 \<le> c \<and> c \<le> 0x39"

definition hexValue :: "code_unit \<Rightarrow> nat option" where
  "hexValue c =
     (if 0x30 \<le> c \<and> c \<le> 0x39 then Some (unat c - 0x30)
      else if 0x41 \<le> c \<and> c \<le> 0x46 then Some (unat c - 0x41 + 10)
      else if 0x61 \<le> c \<and> c \<le> 0x66 then Some (unat c - 0x61 + 10)
      else None)"

definition digitsValue :: "nat \<Rightarrow> nat list \<Rightarrow> nat" where
  "digitsValue radix ds = foldl (\<lambda>acc d. acc * radix + d) 0 ds"

definition decValue :: "jsstring \<Rightarrow> nat" where
  "decValue s = digitsValue 10 (map (\<lambda>c. unat c - 0x30) s)"

definition signed :: "bool \<Rightarrow> real \<Rightarrow> jsnum" where
  "signed neg r = overflow (if neg then - r else r)"

definition stripSign :: "jsstring \<Rightarrow> bool \<times> jsstring" where
  \<comment> \<open>an optional leading \<open>+\<close> or \<open>-\<close>\<close>
  "stripSign s =
     (case s of
        [] \<Rightarrow> (False, [])
      | c # r \<Rightarrow> if c = 0x2D then (True, r) else if c = 0x2B then (False, r) else (False, s))"

definition parseInt :: "jsstring \<Rightarrow> jsnum" where
  \<comment> \<open>\<open>parseInt(s)\<close> with no radix: base 16 after \<open>0x\<close> or \<open>0X\<close>, base 10 otherwise\<close>
  "parseInt s =
     (let (neg, t) = stripSign (trimStart s);
          hex = (case t of
                   c0 # c1 # _ \<Rightarrow> c0 = 0x30 \<and> (c1 = 0x78 \<or> c1 = 0x58)
                 | _ \<Rightarrow> False);
          ds = (if hex then map the (takeWhile (\<lambda>d. d \<noteq> None) (map hexValue (drop 2 t)))
                else map (\<lambda>c. unat c - 0x30) (takeWhile isDigit t))
      in if ds = [] then NaN
         else signed neg (real (digitsValue (if hex then 16 else 10) ds)))"

definition exponentPart :: "jsstring \<Rightarrow> int" where
  \<comment> \<open>\<open>e\<close> or \<open>E\<close>, an optional sign and at least one digit; anything else is not
      part of the number\<close>
  "exponentPart s =
     (case s of
        [] \<Rightarrow> 0
      | c # r \<Rightarrow>
          if c = 0x65 \<or> c = 0x45 then
            (let (neg, t) = stripSign r; ds = takeWhile isDigit t
             in if ds = [] then 0
                else if neg then - int (decValue ds) else int (decValue ds))
          else 0)"

definition parseFloat :: "jsstring \<Rightarrow> jsnum" where
  \<comment> \<open>the longest prefix of the trimmed string that is a \<open>StrDecimalLiteral\<close>\<close>
  "parseFloat s =
     (let (neg, u) = stripSign (trimStart s)
      in if take 8 u = js ''Infinity'' then (if neg then NInf else PInf)
         else
           let ip = takeWhile isDigit u; r1 = dropWhile isDigit u;
               dot = (r1 \<noteq> [] \<and> hd r1 = 0x2E);
               fp = (if dot then takeWhile isDigit (tl r1) else []);
               r2 = (if dot then dropWhile isDigit (tl r1) else r1)
           in if ip = [] \<and> fp = [] then NaN
              else
                let m = real (decValue (ip @ fp));
                    e = exponentPart r2 - int (length fp)
                in signed neg (if 0 \<le> e then m * 10 ^ nat e else m / 10 ^ nat (- e)))"

section \<open>\<open>parse\<close>\<close>

record starData =
  bsn :: jsnum
  rightAscension :: jsnum
  declination :: jsnum
  magnitude :: jsnum
  spectralClass :: "jsstring option"
  name :: jsstring

definition parse_line :: "jsstring \<Rightarrow> starData option" where
  \<comment> \<open>the body of the loop of \<open>parse\<close>; \<open>None\<close> is its \<open>continue\<close>\<close>
  "parse_line l =
     (let bsn = parseInt (substring l 0 4);
          name1 = trim (substring l 4 13);
          name2 = trim (substring l 14 25);
          name = trim (name1 @ js '' '' @ name2);
          raH = parseFloat (substring l 75 77);
          raM = parseFloat (substring l 77 79);
          raS = parseFloat (substring l 79 83);
          ra = js_mul (js_div (js_add (js_add raH (js_div raM (Fin 60)))
                                      (js_div raS (Fin 3600)))
                              (Fin 24))
                      (Fin 360);
          deSign = (if substring l 83 84 = js ''-'' then Fin (- 1) else Fin 1);
          deDeg = parseFloat (substring l 84 86);
          deMin = parseFloat (substring l 86 88);
          deSec = parseFloat (substring l 88 90);
          de = js_mul deSign
                 (js_add (js_add deDeg (js_div deMin (Fin 60))) (js_div deSec (Fin 3600)));
          mag = parseFloat (substring l 102 107);
          st = trim (substring l 127 147);
          sc = charAt0 st
      in if list_ex isNaN [bsn, ra, de, mag] then None
         else Some \<lparr>bsn = bsn, rightAscension = ra, declination = de, magnitude = mag,
                    spectralClass = sc, name = name\<rparr>)"

definition array_store :: "'a list \<Rightarrow> nat \<Rightarrow> 'a \<Rightarrow> 'a list" where
  \<comment> \<open>\<open>entries[i] = v\<close> for \<open>i\<close> up to the length: an index inside the array
      overwrites, the index one past the end appends. (An index further out would leave
      holes; the loop never produces one, see \<open>parse_loop_count\<close>.)\<close>
  "array_store xs i v = (if i < length xs then xs[i := v] else xs @ [v])"

fun parse_loop :: "starData list \<times> nat \<Rightarrow> jsstring list \<Rightarrow> starData list \<times> nat" where
  "parse_loop (entries, count) [] = (entries, count)"
| "parse_loop (entries, count) (l # ls) =
     (case parse_line l of
        None \<Rightarrow> parse_loop (entries, count) ls
      | Some e \<Rightarrow> parse_loop (array_store entries count e, count + 1) ls)"

definition parse :: "jsstring \<Rightarrow> starData list" where
  "parse data = fst (parse_loop ([], 0) (split_lines data))"

text \<open>The four numeric fields of a line, as the loop body computes them.\<close>

definition bsn_of :: "jsstring \<Rightarrow> jsnum" where
  "bsn_of l = parseInt (substring l 0 4)"

definition ra_of :: "jsstring \<Rightarrow> jsnum" where
  "ra_of l =
     js_mul (js_div (js_add (js_add (parseFloat (substring l 75 77))
                                    (js_div (parseFloat (substring l 77 79)) (Fin 60)))
                            (js_div (parseFloat (substring l 79 83)) (Fin 3600)))
                    (Fin 24))
            (Fin 360)"

definition de_of :: "jsstring \<Rightarrow> jsnum" where
  "de_of l =
     js_mul (if substring l 83 84 = js ''-'' then Fin (- 1) else Fin 1)
       (js_add (js_add (parseFloat (substring l 84 86))
                       (js_div (parseFloat (substring l 86 88)) (Fin 60)))
               (js_div (parseFloat (substring l 88 90)) (Fin 3600)))"

definition mag_of :: "jsstring \<Rightarrow> jsnum" where
  "mag_of l = parseFloat (substring l 102 107)"

definition skipped :: "jsstring \<Rightarrow> bool" where
  \<comment> \<open>the guard of the \<open>continue\<close>: one of the four numbers is \<open>NaN\<close>\<close>
  "skipped l \<longleftrightarrow> isNaN (bsn_of l) \<or> isNaN (ra_of l) \<or> isNaN (de_of l) \<or> isNaN (mag_of l)"

definition fields_finite :: "jsstring \<Rightarrow> bool" where
  \<comment> \<open>the specification's wording: the four fields parse to finite numbers\<close>
  "fields_finite l \<longleftrightarrow>
     isFinite (bsn_of l) \<and> isFinite (ra_of l) \<and> isFinite (de_of l) \<and> isFinite (mag_of l)"

section \<open>The palette: \<open>createMaterials\<close> and \<open>spectralClassToColor\<close>\<close>

definition toUpperCase :: "jsstring \<Rightarrow> jsstring" where
  \<comment> \<open>exact on ASCII, where the program uses it (its ten one-letter literals); the
      case table of the rest of Unicode is not modelled and those units are kept\<close>
  "toUpperCase s = map (\<lambda>c. if 0x61 \<le> c \<and> c \<le> 0x7A then c - 0x20 else c) s"

definition spectralClassToColor :: "jsstring \<Rightarrow> jsnum list" where
  "spectralClassToColor cls =
     (let u = toUpperCase cls;
          color =
            (if u = js ''O'' \<or> u = js ''W'' then [Fin 0.57, Fin 0.71, Fin 1]
             else if u = js ''B'' then [Fin 0.63, Fin 0.75, Fin 1]
             else if u = js ''A'' then [Fin 0.83, Fin 0.875, Fin 1]
             else if u = js ''F'' then [Fin 0.97, Fin 0.95, Fin 1]
             else if u = js ''G'' then [Fin 1, Fin 0.92, Fin 0.88]
             else if u = js ''K'' then [Fin 1, Fin 0.85, Fin 0.70]
             else if u = js ''M'' \<or> u = js ''C'' \<or> u = js ''S'' then [Fin 1, Fin 0.70, Fin 0.42]
             else [Fin 1, Fin 1, Fin 1]);
          color = color[0 := js_mul (color ! 0) (color ! 0)];
          color = color[1 := js_mul (color ! 1) (color ! 1)];
          color = color[2 := js_mul (color ! 2) (color ! 2)]
      in color)"

text \<open>
  Modelled from the spec: the document builder (the glTF library's \<open>Document\<close>,
  \<open>Material\<close>, \<open>Accessor\<close>, \<open>Primitive\<close>, \<open>Mesh\<close>, \<open>Node\<close> and \<open>Scene\<close>) is not
  part of the sources. Following sections 3 and 6 of the specification, the document owns
  its objects; here each kind is a list in creation order, and a reference to an object is
  its index in that list. A \<open>create\<close> call appends an object with the format's default
  values and returns its reference; a setter updates the object in place. A reference
  that is \<open>null\<close> or \<open>undefined\<close> is \<open>None\<close>.
\<close>

record material =
  emissiveFactor :: "jsnum list"
  baseColorFactor :: "jsnum list"
  metallicFactor :: jsnum
  roughnessFactor :: jsnum
  extras_cls :: "jsstring option"

record accessor =
  acc_type :: string
  acc_array :: "jsnum list"

record primitive =
  attr_POSITION :: "nat option"
  prim_material :: "nat option"
  prim_mode :: nat

record mesh =
  mesh_primitives :: "nat list"

record node =
  node_mesh :: "nat option"
  node_scale :: "jsnum list"
  node_rotation :: "jsnum list"
  node_translation :: "jsnum list"
  extras_mag :: "jsnum option"
  extras_bsn :: "jsnum option"
  extras_name :: "jsstring option"

record document =
  buffers :: nat
  accessors :: "accessor list"
  materials :: "material list"
  primitives :: "primitive list"
  meshes :: "mesh list"
  nodes :: "node list"
  scene_children :: "nat list"

definition new_document :: document where
  \<comment> \<open>\<open>new Document()\<close> followed by \<open>createScene()\<close>\<close>
  "new_document =
     \<lparr>buffers = 0, accessors = [], materials = [], primitives = [], meshes = [],
      nodes = [], scene_children = []\<rparr>"

definition createMaterial :: "document \<Rightarrow> nat \<times> document" where
  "createMaterial d =
     (length (materials d),
      d\<lparr>materials := materials d @
           [\<lparr>emissiveFactor = [Fin 0, Fin 0, Fin 0],
             baseColorFactor = [Fin 1, Fin 1, Fin 1, Fin 1],
             metallicFactor = Fin 1, roughnessFactor = Fin 1, extras_cls = None\<rparr>]\<rparr>)"

definition set_material :: "nat \<Rightarrow> (material \<Rightarrow> material) \<Rightarrow> document \<Rightarrow> document" where
  "set_material mat f d = d\<lparr>materials := (materials d)[mat := f (materials d ! mat)]\<rparr>"

definition starClasses :: "jsstring list" where
  "starClasses =
     [js ''O'', js ''W'', js ''B'', js ''A'', js ''F'', js ''G'', js ''K'', js ''M'',
      js ''C'', js ''S'']"

definition createMaterials_step ::
  "(jsstring \<rightharpoonup> nat) \<times> document \<Rightarrow> jsstring \<Rightarrow> (jsstring \<rightharpoonup> nat) \<times> document" where
  \<comment> \<open>the callback of the \<open>reduce\<close>\<close>
  "createMaterials_step s cls =
     (let (acc, d) = s;
          (mat, d) = createMaterial d;
          color = spectralClassToColor cls;
          d = set_material mat (\<lambda>m. m\<lparr>emissiveFactor := color\<rparr>) d;
          d = set_material mat (\<lambda>m. m\<lparr>baseColorFactor := color @ [Fin 1.0]\<rparr>) d;
          d = set_material mat (\<lambda>m. m\<lparr>metallicFactor := Fin 0\<rparr>) d;
          d = set_material mat (\<lambda>m. m\<lparr>roughnessFactor := Fin 1\<rparr>) d;
          d = set_material mat (\<lambda>m. m\<lparr>extras_cls := Some cls\<rparr>) d
      in (acc(cls \<mapsto> mat), d))"

definition createMaterials :: "document \<Rightarrow> (jsstring \<rightharpoonup> nat) \<times> document" where
  "createMaterials d = foldl createMaterials_step (Map.empty, d) starClasses"

definition descriptor :: "jsstring \<Rightarrow> material" where
  \<comment> \<open>the specification's descriptor of a class: the table colour with every channel
      squared as emissive and as base colour, alpha 1, metallic 0, roughness 1\<close>
  "descriptor cls =
     (let table =
            (if cls = js ''O'' \<or> cls = js ''W'' then [0.57, 0.71, 1]
             else if cls = js ''B'' then [0.63, 0.75, 1]
             else if cls = js ''A'' then [0.83, 0.875, 1]
             else if cls = js ''F'' then [0.97, 0.95, 1]
             else if cls = js ''G'' then [1, 0.92, 0.88]
             else if cls = js ''K'' then [1, 0.85, 0.70]
             else if cls = js ''M'' \<or> cls = js ''C'' \<or> cls = js ''S'' then [1, 0.70, 0.42]
             else [1, 1, 1]);
          squared = map (\<lambda>c. Fin (c * c)) table
      in \<lparr>emissiveFactor = squared, baseColorFactor = squared @ [Fin 1],
          metallicFactor = Fin 0, roughnessFactor = Fin 1, extras_cls = Some cls\<rparr>)"

fun unit_channel :: "jsnum \<Rightarrow> bool" where
  "unit_channel (Fin r) = (0 \<le> r \<and> r \<le> 1)"
| "unit_channel _ = False"

section \<open>\<open>render\<close>\<close>

text \<open>
  Modelled from the spec: the rotation library (\<open>Quat\<close> and \<open>Vec3\<close>) is not part of the
  sources. Following section 4.3 of the specification, \<open>setFromAxisAngle\<close> makes its
  receiver the rotation about an axis by an angle in degrees, \<open>mul2\<close> makes its receiver
  the product of two rotations with the left one outermost, and \<open>transformVector\<close>
  applies a rotation to a vector and returns a new vector; the three are written in the
  usual quaternion formulas, in the model's arithmetic. \<open>UP\<close>, \<open>RIGHT\<close> and
  \<open>FORWARD\<close> are the unit vectors along \<open>+y\<close>, \<open>+x\<close> and \<open>-z\<close>. The two setters
  overwrite every component of the object they are called on.
\<close>

record vec3 =
  vx :: jsnum
  vy :: jsnum
  vz :: jsnum

record quat =
  qx :: jsnum
  qy :: jsnum
  qz :: jsnum
  qw :: jsnum

definition UP :: vec3 where
  "UP = \<lparr>vx = Fin 0, vy = Fin 1, vz = Fin 0\<rparr>"

definition RIGHT :: vec3 where
  "RIGHT = \<lparr>vx = Fin 1, vy = Fin 0, vz = Fin 0\<rparr>"

definition FORWARD :: vec3 where
  "FORWARD = \<lparr>vx = Fin 0, vy = Fin 0, vz = Fin (- 1)\<rparr>"

definition DEG_TO_RAD :: jsnum where
  "DEG_TO_RAD = Fin (pi / 180)"

definition new_Quat :: quat where
  "new_Quat = \<lparr>qx = Fin 0, qy = Fin 0, qz = Fin 0, qw = Fin 1\<rparr>"

definition setFromAxisAngle :: "quat \<Rightarrow> vec3 \<Rightarrow> jsnum \<Rightarrow> quat" where
  "setFromAxisAngle this axis angle =
     (let angle = js_mul angle (js_mul (Fin 0.5) DEG_TO_RAD);
          sa = Math_sin angle;
          ca = Math_cos angle
      in this\<lparr>qx := js_mul sa (vx axis), qy := js_mul sa (vy axis),
              qz := js_mul sa (vz axis), qw := ca\<rparr>)"

definition mul2 :: "quat \<Rightarrow> quat \<Rightarrow> quat \<Rightarrow> quat" where
  "mul2 this lhs rhs =
     (let q1x = qx lhs; q1y = qy lhs; q1z = qz lhs; q1w = qw lhs;
          q2x = qx rhs; q2y = qy rhs; q2z = qz rhs; q2w = qw rhs
      in this
         \<lparr>qx := js_sub (js_add (js_add (js_mul q1w q2x) (js_mul q1x q2w)) (js_mul q1y q2z))
                       (js_mul q1z q2y),
          qy := js_sub (js_add (js_add (js_mul q1w q2y) (js_mul q1y q2w)) (js_mul q1z q2x))
                       (js_mul q1x q2z),
          qz := js_sub (js_add (js_add (js_mul q1w q2z) (js_mul q1z q2w)) (js_mul q1x q2y))
                       (js_mul q1y q2x),
          qw := js_sub (js_sub (js_sub (js_mul q1w q2w) (js_mul q1x q2x)) (js_mul q1y q2y))
                       (js_mul q1z q2z)\<rparr>)"

definition transformVector :: "quat \<Rightarrow> vec3 \<Rightarrow> vec3" where
  "transformVector this vec =
     (let x = vx vec; y = vy vec; z = vz vec;
          ix = js_sub (js_add (js_mul (qw this) x) (js_mul (qy this) z)) (js_mul (qz this) y);
          iy = js_sub (js_add (js_mul (qw this) y) (js_mul (qz this) x)) (js_mul (qx this) z);
          iz = js_sub (js_add (js_mul (qw this) z) (js_mul (qx this) y)) (js_mul (qy this) x);
          iw = js_sub (js_sub (js_mul (js_neg (qx this)) x) (js_mul (qy this) y))
                      (js_mul (qz this) z)
      in \<lparr>vx = js_sub (js_add (js_add (js_mul ix (qw this)) (js_mul iw (js_neg (qx this))))
                                (js_mul iy (js_neg (qz this))))
                        (js_mul iz (js_neg (qy this))),
          vy = js_sub (js_add (js_add (js_mul iy (qw this)) (js_mul iw (js_neg (qy this))))
                                (js_mul iz (js_neg (qx this))))
                        (js_mul ix (js_neg (qz this))),
          vz = js_sub (js_add (js_add (js_mul iz (qw this)) (js_mul iw (js_neg (qz this))))
                                (js_mul ix (js_neg (qy this))))
                        (js_mul iy (js_neg (qx this)))\<rparr>)"

text \<open>The three scratch rotations that \<open>render\<close> creates once and reuses for every star.\<close>

record scratch =
  scr_q1 :: quat
  scr_q2 :: quat
  scr_q :: quat

record transform =
  rotation :: "jsnum list"
  scales :: "jsnum list"
  translation :: "jsnum list"

definition star_scale :: "jsnum \<Rightarrow> jsnum" where
  \<comment> \<open>\<open>4 ** ((6 - mag) / 4) / 15\<close>\<close>
  "star_scale mag = js_div (js_pow4 (js_div (js_sub (Fin 6) mag) (Fin 4))) (Fin 15)"

definition computeTransform :: "scratch \<Rightarrow> jsnum \<Rightarrow> jsnum \<Rightarrow> jsnum \<Rightarrow> scratch \<times> transform" where
  \<comment> \<open>the part of the callback of \<open>forEach\<close> from \<open>q1.setFromAxisAngle\<close> to
      \<open>translation\<close>; the name is the specification's\<close>
  "computeTransform s ra de mag =
     (let s = s\<lparr>scr_q1 := setFromAxisAngle (scr_q1 s) UP ra\<rparr>;
          s = s\<lparr>scr_q2 := setFromAxisAngle (scr_q2 s) RIGHT de\<rparr>;
          s = s\<lparr>scr_q := mul2 (scr_q s) (scr_q1 s) (scr_q2 s)\<rparr>;
          x = qx (scr_q s); y = qy (scr_q s); z = qz (scr_q s); w = qw (scr_q s);
          scale = star_scale mag;
          coords = transformVector (scr_q s) FORWARD;
          rotation = [toFixed_parsed 2 x, toFixed_parsed 2 y, toFixed_parsed 2 z,
                      toFixed_parsed 2 w];
          scales = [toFixed_parsed 2 scale, toFixed_parsed 2 scale, toFixed_parsed 2 scale];
          translation = [toFixed_parsed 3 (vx coords), toFixed_parsed 3 (vy coords),
                         toFixed_parsed 3 (vz coords)]
      in (s, \<lparr>rotation = rotation, scales = scales, translation = translation\<rparr>))"

definition lookup :: "(jsstring \<rightharpoonup> nat) \<Rightarrow> jsstring option \<Rightarrow> nat option" where
  \<comment> \<open>\<open>materials[sc]\<close>: the key \<open>undefined\<close> is looked up as the string
      \<open>"undefined"\<close>; a missing key gives \<open>undefined\<close>. Own keys only: the
      properties every object inherits (\<open>constructor\<close>, \<open>toString\<close>, ...) are
      not modelled; none of them is a one-unit string or \<open>"undefined"\<close>, the keys
      that \<open>parse\<close> can produce.\<close>
  "lookup mats sc = mats (case sc of None \<Rightarrow> js ''undefined'' | Some k \<Rightarrow> k)"

definition createPrimitive :: "document \<Rightarrow> nat \<times> document" where
  "createPrimitive d =
     (length (primitives d),
      d\<lparr>primitives := primitives d @
           [\<lparr>attr_POSITION = None, prim_material = None, prim_mode = 4\<rparr>]\<rparr>)"

definition set_primitive :: "nat \<Rightarrow> (primitive \<Rightarrow> primitive) \<Rightarrow> document \<Rightarrow> document" where
  "set_primitive p f d = d\<lparr>primitives := (primitives d)[p := f (primitives d ! p)]\<rparr>"

definition createMesh :: "document \<Rightarrow> nat \<times> document" where
  "createMesh d = (length (meshes d), d\<lparr>meshes := meshes d @ [\<lparr>mesh_primitives = []\<rparr>]\<rparr>)"

definition addPrimitive :: "nat \<Rightarrow> nat \<Rightarrow> document \<Rightarrow> document" where
  "addPrimitive m p d =
     d\<lparr>meshes := (meshes d)[m := (meshes d ! m)\<lparr>mesh_primitives :=
                                  mesh_primitives (meshes d ! m) @ [p]\<rparr>]\<rparr>"

definition createNode :: "document \<Rightarrow> nat \<times> document" where
  "createNode d =
     (length (nodes d),
      d\<lparr>nodes := nodes d @
           [\<lparr>node_mesh = None, node_scale = [Fin 1, Fin 1, Fin 1],
             node_rotation = [Fin 0, Fin 0, Fin 0, Fin 1],
             node_translation = [Fin 0, Fin 0, Fin 0],
             extras_mag = None, extras_bsn = None, extras_name = None\<rparr>]\<rparr>)"

definition set_node :: "nat \<Rightarrow> (node \<Rightarrow> node) \<Rightarrow> document \<Rightarrow> document" where
  "set_node n f d = d\<lparr>nodes := (nodes d)[n := f (nodes d ! n)]\<rparr>"

definition addChild :: "nat \<Rightarrow> document \<Rightarrow> document" where
  \<comment> \<open>\<open>gltfScene.addChild(node)\<close>\<close>
  "addChild n d = d\<lparr>scene_children := scene_children d @ [n]\<rparr>"

definition octagon :: "jsnum list" where
  \<comment> \<open>the ten vertices, each coordinate times 0.001 (the rounding to 32-bit floats of
      the typed array is not modelled)\<close>
  "octagon =
     map (\<lambda>n. js_mul (Fin n) (Fin 0.001))
       [0, 0, 0,  10, 0, 0,  7, 7, 0,  0, 10, 0,  - 7, 7, 0,  - 10, 0, 0,  - 7, - 7, 0,
        0, - 10, 0,  7, - 7, 0,  10, 0, 0]"

definition createAccessor :: "document \<Rightarrow> nat \<times> document" where
  "createAccessor d =
     (length (accessors d),
      d\<lparr>accessors := accessors d @ [\<lparr>acc_type = ''SCALAR'', acc_array = []\<rparr>]\<rparr>)"

definition set_accessor :: "nat \<Rightarrow> (accessor \<Rightarrow> accessor) \<Rightarrow> document \<Rightarrow> document" where
  "set_accessor a f d = d\<lparr>accessors := (accessors d)[a := f (accessors d ! a)]\<rparr>"

definition render_star ::
  "nat \<Rightarrow> (jsstring \<rightharpoonup> nat) \<Rightarrow> scratch \<times> document \<Rightarrow> starData \<Rightarrow> scratch \<times> document" where
  \<comment> \<open>the callback of \<open>entries.forEach\<close>\<close>
  "render_star acc mats sd star =
     (let (s, d) = sd;
          mat = lookup mats (spectralClass star);
          (prim, d) = createPrimitive d;
          d = set_primitive prim (\<lambda>p. p\<lparr>attr_POSITION := Some acc\<rparr>) d;
          d = set_primitive prim (\<lambda>p. p\<lparr>prim_material := mat\<rparr>) d;
          d = set_primitive prim (\<lambda>p. p\<lparr>prim_mode := 6\<rparr>) d;
          (mesh, d) = createMesh d;
          d = addPrimitive mesh prim d;
          (s, t) = computeTransform s (rightAscension star) (declination star)
                     (magnitude star);
          (node, d) = createNode d;
          d = set_node node (\<lambda>n. n\<lparr>node_mesh := Some mesh\<rparr>) d;
          d = set_node node (\<lambda>n. n\<lparr>node_scale := scales t\<rparr>) d;
          d = set_node node (\<lambda>n. n\<lparr>node_rotation := rotation t\<rparr>) d;
          d = set_node node (\<lambda>n. n\<lparr>node_translation := translation t\<rparr>) d;
          d = set_node node (\<lambda>n. n\<lparr>extras_mag := Some (magnitude star),
                                     extras_bsn := Some (bsn star),
                                     extras_name := Some (name star)\<rparr>) d;
          d = addChild node d
      in (s, d))"

definition render :: "starData list \<Rightarrow> (jsstring \<rightharpoonup> nat) \<Rightarrow> document \<Rightarrow> document" where
  "render entries mats d =
     (let d = d\<lparr>buffers := buffers d + 1\<rparr>;
          (acc, d) = createAccessor d;
          d = set_accessor acc (\<lambda>a. a\<lparr>acc_type := ''VEC3''\<rparr>) d;
          d = set_accessor acc (\<lambda>a. a\<lparr>acc_array := octagon\<rparr>) d;
          s = \<lparr>scr_q1 = new_Quat, scr_q2 = new_Quat, scr_q = new_Quat\<rparr>
      in snd (foldl (render_star acc mats) (s, d) entries))"

definition assemble :: "starData list \<Rightarrow> document" where
  \<comment> \<open>what \<open>main\<close> does with the parsed entries: the palette first, then \<open>render\<close>\<close>
  "assemble entries =
     (let (mats, d) = createMaterials new_document in render entries mats d)"

subsection \<open>Notions the properties are stated with\<close>

definition valid_class :: "starData \<Rightarrow> bool" where
  \<comment> \<open>the spectral class is one of the ten letters\<close>
  "valid_class star \<longleftrightarrow> spectralClass star \<in> Some ` set starClasses"

definition vec_norm :: "jsnum list \<Rightarrow> real option" where
  \<comment> \<open>the Euclidean norm of a vector of three finite numbers\<close>
  "vec_norm v =
     (case v of
        [Fin x, Fin y, Fin z] \<Rightarrow> Some (sqrt (x * x + y * y + z * z))
      | _ \<Rightarrow> None)"

fun js_le :: "jsnum \<Rightarrow> jsnum \<Rightarrow> bool" where
  "js_le NaN _ = False"
| "js_le _ NaN = False"
| "js_le NInf _ = True"
| "js_le _ PInf = True"
| "js_le PInf _ = False"
| "js_le _ NInf = False"
| "js_le (Fin a) (Fin b) = (a \<le> b)"

definition js_less :: "jsnum \<Rightarrow> jsnum \<Rightarrow> bool" where
  \<comment> \<open>\<open>x < y\<close>\<close>
  "js_less x y \<longleftrightarrow> js_le x y \<and> \<not> js_le y x"

definition node_of_star :: "document \<Rightarrow> nat \<Rightarrow> node" where
  \<comment> \<open>the node that is the \<open>i\<close>-th child of the scene\<close>
  "node_of_star d i = nodes d ! (scene_children d ! i)"

definition primitive_of_node :: "document \<Rightarrow> node \<Rightarrow> primitive option" where
  \<comment> \<open>the primitive of a node's mesh, when the mesh has exactly one\<close>
  "primitive_of_node d n =
     (case node_mesh n of
        None \<Rightarrow> None
      | Some m \<Rightarrow>
          (case mesh_primitives (meshes d ! m) of
             [p] \<Rightarrow> Some (primitives d ! p)
           | _ \<Rightarrow> None))"

definition new_scratch :: scratch where
  \<comment> \<open>the scratch rotations as \<open>render\<close> creates them\<close>
  "new_scratch = \<lparr>scr_q1 = new_Quat, scr_q2 = new_Quat, scr_q = new_Quat\<rparr>"

definition star_transform :: "starData \<Rightarrow> transform" where
  \<comment> \<open>the transform of a star when the scratch rotations are fresh\<close>
  "star_transform star =
     snd (computeTransform new_scratch (rightAscension star) (declination star)
            (magnitude star))"

definition star_primitive :: "nat \<Rightarrow> (jsstring \<rightharpoonup> nat) \<Rightarrow> starData \<Rightarrow> primitive" where
  "star_primitive acc mats star =
     \<lparr>attr_POSITION = Some acc, prim_material = lookup mats (spectralClass star),
      prim_mode = 6\<rparr>"

definition star_node :: "nat \<Rightarrow> starData \<Rightarrow> node" where
  "star_node m star =
     \<lparr>node_mesh = Some m, node_scale = scales (star_transform star),
      node_rotation = rotation (star_transform star),
      node_translation = translation (star_transform star),
      extras_mag = Some (magnitude star), extras_bsn = Some (bsn star),
      extras_name = Some (name star)\<rparr>"

definition finite_number :: "jsnum \<Rightarrow> bool" where
  \<comment> \<open>a finite double: a real inside the double range\<close>
  "finite_number x = (case x of Fin r \<Rightarrow> \<bar>r\<bar> < max_bound | _ \<Rightarrow> False)"

definition fin_within :: "real \<Rightarrow> jsnum \<Rightarrow> real \<Rightarrow> bool" where
  \<comment> \<open>\<open>x\<close> is the finite number \<open>r\<close>, of magnitude at most \<open>B\<close>\<close>
  "fin_within B x r \<longleftrightarrow> x = Fin r \<and> \<bar>r\<bar> \<le> B"

subsection \<open>Concrete inputs\<close>

definition blanks :: "nat \<Rightarrow> jsstring" where
  "blanks n = replicate n 0x20"

definition sirius_line :: jsstring where
  \<comment> \<open>the catalogue line of HR 2491, up to the end of its spectral type\<close>
  "sirius_line =
     js ''2491  9Alp CMaBD-16 1591 '' @ blanks 50 @ js ''064508.9-164258'' @ blanks 12 @
     js ''-1.46'' @ blanks 20 @ js ''A0mA1 Va''"

definition overflow_line :: jsstring where
  \<comment> \<open>107 characters: id 1, both angles zero, magnitude column \<open>1e400\<close>\<close>
  "overflow_line =
     js ''   1'' @ blanks 71 @ js ''000000.0+000000'' @ blanks 12 @ js ''1e400''"

definition short_line :: jsstring where
  \<comment> \<open>103 characters: id 7, both angles zero, magnitude column cut after \<open>5\<close>\<close>
  "short_line = js ''   7'' @ blanks 71 @ js ''000000.0+000000'' @ blanks 12 @ js ''5''"

definition blank_type_line :: jsstring where
  \<comment> \<open>147 characters: id 7, both angles zero, magnitude 5.00, spectral type blank\<close>
  "blank_type_line =
     js ''   7'' @ blanks 71 @ js ''000000.0+000000'' @ blanks 12 @ js '' 5.00'' @ blanks 40"

definition class_N_line :: jsstring where
  \<comment> \<open>147 characters: id 9, both angles zero, magnitude 6.50, spectral type \<open>N0\<close>\<close>
  "class_N_line =
     js ''   9'' @ blanks 71 @ js ''000000.0+000000'' @ blanks 12 @ js '' 6.50'' @ blanks 20 @
     js ''N0'' @ blanks 18"

definition sirius :: starData where
  "sirius =
     \<lparr>bsn = Fin 2491, rightAscension = Fin (243089 / 2400),
      declination = Fin (- (30089 / 1800)), magnitude = Fin (- (73 / 50)),
      spectralClass = Some (js ''A''), name = js ''9Alp CMa BD-16 1591''\<rparr>"

definition betelgeuse :: starData where
  "betelgeuse =
     \<lparr>bsn = Fin 2061, rightAscension = Fin 88.79, declination = Fin 7.41,
      magnitude = Fin 0.5, spectralClass = Some (js ''M''), name = js ''58Alp Ori''\<rparr>"

definition sirius_twin :: starData where
  \<comment> \<open>another record with the position and magnitude of \<open>sirius\<close>\<close>
  "sirius_twin = sirius\<lparr>bsn := Fin 1, spectralClass := Some (js ''K''), name := js ''twin''\<rparr>"

section \<open>Properties of \<open>parse\<close>\<close>

lemmas literal_simps =
  parseFloat_def parseInt_def js_def trimStart_def trim_def isWhiteSpace_def stripSign_def
  isDigit_def exponentPart_def decValue_def digitsValue_def signed_def charAt0_def
  hexValue_def overflow_def max_bound_def

lemma substring_take_drop: "a \<le> b \<Longrightarrow> substring s a b = take (b - a) (drop a s)"
  by (auto simp: substring_def Let_def min_def max_def)

lemma parse_line_eq:
  "parse_line l =
     (if skipped l then None
      else Some \<lparr>bsn = bsn_of l, rightAscension = ra_of l, declination = de_of l,
                 magnitude = mag_of l,
                 spectralClass = charAt0 (trim (substring l 127 147)),
                 name = trim (trim (substring l 4 13) @ js '' '' @ trim (substring l 14 25))\<rparr>)"
  by (simp add: parse_line_def skipped_def bsn_of_def ra_of_def de_of_def mag_of_def Let_def)

lemma parse_loop_append:
  "parse_loop (es, length es) ls =
     (es @ map (the \<circ> parse_line) (filter (\<lambda>l. \<not> skipped l) ls),
      length es + length (filter (\<lambda>l. \<not> skipped l) ls))"
proof (induction ls arbitrary: es)
  case Nil
  show ?case by simp
next
  case (Cons l ls)
  show ?case
  proof (cases "skipped l")
    case True
    then have "parse_line l = None" by (simp add: parse_line_eq)
    with True Cons.IH [of es] show ?thesis by simp
  next
    case False
    then obtain e where e: "parse_line l = Some e" by (simp add: parse_line_eq)
    have "array_store es (length es) e = es @ [e]" by (simp add: array_store_def)
    with False e Cons.IH [of "es @ [e]"] show ?thesis by simp
  qed
qed

lemma parse_loop_count:
  "snd (parse_loop (es, length es) ls) = length (fst (parse_loop (es, length es) ls))"
  by (simp add: parse_loop_append)

lemma parse_eq:
  "parse data = map (the \<circ> parse_line) (filter (\<lambda>l. \<not> skipped l) (split_lines data))"
  using parse_loop_append [of "[]" "split_lines data"] by (simp add: parse_def)

lemma length_filter_not: "length (filter (\<lambda>x. \<not> P x) xs) = length xs - length (filter P xs)"
  using sum_length_filter_compl [of P xs] by arith

lemma split_from_no_newline: "0x0A \<notin> set s \<Longrightarrow> split_from cur s = [rev cur @ s]"
  by (induction s arbitrary: cur) auto

lemma split_lines_single: "0x0A \<notin> set s \<Longrightarrow> split_lines s = [s]"
  by (simp add: split_lines_def split_from_no_newline)

lemma parseFloat_empty: "parseFloat [] = NaN"
  by (simp add: parseFloat_def trimStart_def stripSign_def js_def)

lemma short_mag: "length l < 103 \<Longrightarrow> mag_of l = NaN"
  by (simp add: mag_of_def substring_def parseFloat_empty)

lemma finite_not_NaN: "isFinite x \<Longrightarrow> \<not> isNaN x"
  by (cases x) simp_all

text \<open>The catalogue line of Sirius, field by field.\<close>

lemma sirius_bsn: "bsn_of sirius_line = Fin 2491"
  apply (simp add: sirius_line_def bsn_of_def substring_take_drop blanks_def js_def)
  apply (simp add: literal_simps)
  done

lemma sirius_ra: "ra_of sirius_line = Fin (243089 / 2400)"
  apply (simp add: sirius_line_def ra_of_def substring_take_drop blanks_def js_def)
  apply (simp add: literal_simps)
  done

lemma sirius_de: "de_of sirius_line = Fin (- (30089 / 1800))"
  apply (simp add: sirius_line_def de_of_def substring_take_drop blanks_def js_def)
  apply (simp add: literal_simps)
  done

lemma sirius_mag: "mag_of sirius_line = Fin (- (73 / 50))"
  apply (simp add: sirius_line_def mag_of_def substring_take_drop blanks_def js_def)
  apply (simp add: literal_simps)
  done

lemma sirius_kept: "\<not> skipped sirius_line"
  by (simp add: skipped_def sirius_bsn sirius_ra sirius_de sirius_mag)

text \<open>
  C3. When a line yields a record, the record's right ascension is
  \<open>(H + M / 60 + S / 3600) / 24 * 360\<close> of the numbers parsed from columns 75-77, 77-79
  and 79-83, and its declination is \<open>sign * (D + M / 60 + S / 3600)\<close> of the numbers
  parsed from columns 84-86, 86-88 and 88-90, where \<open>sign\<close> is \<open>-1\<close> when column 83
  holds \<open>-\<close> and \<open>+1\<close> for anything else.
\<close>

theorem parse_angle_formulas:
  assumes "parse_line l = Some r"
  shows "rightAscension r =
           js_mul (js_div (js_add (js_add (parseFloat (substring l 75 77))
                                          (js_div (parseFloat (substring l 77 79)) (Fin 60)))
                                  (js_div (parseFloat (substring l 79 83)) (Fin 3600)))
                          (Fin 24))
                  (Fin 360) \<and>
         declination r =
           js_mul (if substring l 83 84 = js ''-'' then Fin (- 1) else Fin 1)
             (js_add (js_add (parseFloat (substring l 84 86))
                             (js_div (parseFloat (substring l 86 88)) (Fin 60)))
                     (js_div (parseFloat (substring l 88 90)) (Fin 3600)))"
  using assms by (auto simp: parse_line_def Let_def split: if_splits)

theorem parse_angle_formulas_witness:
  "parse_line sirius_line \<noteq> None \<and>
   rightAscension (the (parse_line sirius_line)) = Fin (243089 / 2400) \<and>
   declination (the (parse_line sirius_line)) = Fin (- (30089 / 1800))"
proof -
  obtain r where r: "parse_line sirius_line = Some r"
    using sirius_kept by (simp add: parse_line_eq)
  from parse_angle_formulas [OF r] have
    "rightAscension r = ra_of sirius_line" "declination r = de_of sirius_line"
    by (simp_all add: ra_of_def de_of_def)
  with r show ?thesis by (simp add: sirius_ra sirius_de)
qed

text \<open>The line whose magnitude column overflows, field by field.\<close>

lemma overflow_line_bsn: "bsn_of overflow_line = Fin 1"
  apply (simp add: overflow_line_def bsn_of_def substring_take_drop blanks_def js_def)
  apply (simp add: literal_simps)
  done

lemma overflow_line_ra: "ra_of overflow_line = Fin 0"
  apply (simp add: overflow_line_def ra_of_def substring_take_drop blanks_def js_def)
  apply (simp add: literal_simps)
  done

lemma overflow_line_de: "de_of overflow_line = Fin 0"
  apply (simp add: overflow_line_def de_of_def substring_take_drop blanks_def js_def)
  apply (simp add: literal_simps)
  done

lemma overflow_line_mag: "mag_of overflow_line = PInf"
  apply (simp add: overflow_line_def mag_of_def substring_take_drop blanks_def js_def)
  apply (simp add: literal_simps)
  done

lemma overflow_line_single: "split_lines overflow_line = [overflow_line]"
  by (rule split_lines_single) (simp add: overflow_line_def blanks_def js_def)

text \<open>
  C4, as amended. \<open>parse\<close> returns, in the order of the lines, the records of exactly the
  lines on which none of id, right ascension, declination and magnitude is \<open>NaN\<close>; their
  number is the number of lines minus the number of lines on which one of the four is
  \<open>NaN\<close>. (A line whose magnitude column overflows to \<open>Infinity\<close> is kept.)
\<close>

theorem parse_count_and_order:
  "parse data = map (the \<circ> parse_line) (filter (\<lambda>l. \<not> skipped l) (split_lines data)) \<and>
   length (parse data) = length (split_lines data) - length (filter skipped (split_lines data))"
  by (simp add: parse_eq length_filter_not)

text \<open>
  With "fails to parse to a finite number" as the criterion, as the specification words
  it, the count is wrong on a line whose magnitude column reads \<open>1e400\<close>: the
  magnitude is \<open>Infinity\<close> and the line is kept.
\<close>

theorem parse_count_finite_counterexample:
  "length (parse overflow_line) \<noteq>
     length (split_lines overflow_line) -
     length (filter (\<lambda>l. \<not> fields_finite l) (split_lines overflow_line))"
  by (simp add: parse_eq overflow_line_single skipped_def fields_finite_def
      overflow_line_bsn overflow_line_ra overflow_line_de overflow_line_mag)

text \<open>A full-width line whose spectral type columns are blank, field by field.\<close>

lemma blank_type_line_bsn: "bsn_of blank_type_line = Fin 7"
  apply (simp add: blank_type_line_def bsn_of_def substring_take_drop blanks_def js_def)
  apply (simp add: literal_simps)
  done

lemma blank_type_line_ra: "ra_of blank_type_line = Fin 0"
  apply (simp add: blank_type_line_def ra_of_def substring_take_drop blanks_def js_def)
  apply (simp add: literal_simps)
  done

lemma blank_type_line_de: "de_of blank_type_line = Fin 0"
  apply (simp add: blank_type_line_def de_of_def substring_take_drop blanks_def js_def)
  apply (simp add: literal_simps)
  done

lemma blank_type_line_mag: "mag_of blank_type_line = Fin 5"
  apply (simp add: blank_type_line_def mag_of_def substring_take_drop blanks_def js_def)
  apply (simp add: literal_simps)
  done

lemma blank_type_line_type: "trim (substring blank_type_line 127 147) = []"
  apply (simp add: blank_type_line_def substring_take_drop blanks_def js_def)
  apply (simp add: trim_def isWhiteSpace_def)
  done

text \<open>
  C9. Whether a line is skipped depends on its four numeric fields only: it is skipped
  exactly when one of them is \<open>NaN\<close>. So a line whose four numeric fields are finite is
  kept, and when its spectral type columns 127-147 are empty or all whitespace, the record
  it yields has no spectral class (\<open>undefined\<close>).
\<close>

theorem blank_spectral_type_kept:
  "(parse_line l = None \<longleftrightarrow> skipped l) \<and>
   (fields_finite l \<longrightarrow> \<not> skipped l) \<and>
   (\<not> skipped l \<and> trim (substring l 127 147) = [] \<longrightarrow>
      (\<exists>r. parse_line l = Some r \<and> spectralClass r = None \<and>
           bsn r = bsn_of l \<and> rightAscension r = ra_of l \<and> declination r = de_of l \<and>
           magnitude r = mag_of l))"
  by (auto simp: parse_line_eq charAt0_def fields_finite_def skipped_def dest: finite_not_NaN)

theorem blank_spectral_type_kept_witness:
  "fields_finite blank_type_line \<and> trim (substring blank_type_line 127 147) = [] \<and>
   parse_line blank_type_line \<noteq> None \<and>
   spectralClass (the (parse_line blank_type_line)) = None \<and>
   magnitude (the (parse_line blank_type_line)) = Fin 5"
proof -
  have fin: "fields_finite blank_type_line"
    by (simp add: fields_finite_def blank_type_line_bsn blank_type_line_ra
        blank_type_line_de blank_type_line_mag)
  with blank_spectral_type_kept [of blank_type_line] blank_type_line_type
  obtain r where "parse_line blank_type_line = Some r" "spectralClass r = None"
    "magnitude r = mag_of blank_type_line"
    by auto
  with fin show ?thesis by (simp add: blank_type_line_type blank_type_line_mag)
qed

text \<open>A line of 103 characters, field by field.\<close>

lemma short_line_bsn: "bsn_of short_line = Fin 7"
  apply (simp add: short_line_def bsn_of_def substring_take_drop blanks_def js_def)
  apply (simp add: literal_simps)
  done

lemma short_line_ra: "ra_of short_line = Fin 0"
  apply (simp add: short_line_def ra_of_def substring_take_drop blanks_def js_def)
  apply (simp add: literal_simps)
  done

lemma short_line_de: "de_of short_line = Fin 0"
  apply (simp add: short_line_def de_of_def substring_take_drop blanks_def js_def)
  apply (simp add: literal_simps)
  done

lemma short_line_mag: "mag_of short_line = Fin 5"
  apply (simp add: short_line_def mag_of_def substring_take_drop blanks_def js_def)
  apply (simp add: literal_simps)
  done

lemma short_line_single: "split_lines short_line = [short_line]"
  by (rule split_lines_single) (simp add: short_line_def blanks_def js_def)

lemma parse_all_skipped: "list_all skipped (split_lines data) \<Longrightarrow> parse data = []"
  by (simp add: parse_eq filter_empty_conv list_all_iff)

text \<open>
  C10, as amended. \<open>parse\<close> has no failing step (every operation of its body is defined
  on every string, so the model needs no error value). Parsing the empty string returns
  the empty sequence. A line shorter than 103 characters has an empty magnitude column,
  which parses to \<open>NaN\<close>, so the line is skipped; a text all of whose lines are that
  short yields no record.
\<close>

theorem short_lines_skipped:
  "parse [] = [] \<and>
   (length l < 103 \<longrightarrow> parse_line l = None) \<and>
   (list_all (\<lambda>l. length l < 103) (split_lines data) \<longrightarrow> parse data = [])"
proof -
  have one: "parse_line k = None" if "length k < 103" for k
    using that by (simp add: parse_line_eq skipped_def short_mag)
  have "parse data = []" if "list_all (\<lambda>l. length l < 103) (split_lines data)"
  proof (rule parse_all_skipped)
    from that show "list_all skipped (split_lines data)"
      by (simp add: list_all_iff skipped_def short_mag)
  qed
  moreover have "parse [] = []"
    by (rule parse_all_skipped) (simp add: split_lines_def skipped_def short_mag)
  ultimately show ?thesis using one by blast
qed

theorem short_lines_skipped_witness:
  "length (js ''HR 1'') < 103 \<and> parse_line (js ''HR 1'') = None \<and>
   list_all (\<lambda>l. length l < 103) (split_lines (js ''HR 1'')) \<and> parse (js ''HR 1'') = []"
proof -
  have len: "length (js ''HR 1'') < 103" by (simp add: js_def)
  have "split_lines (js ''HR 1'') = [js ''HR 1'']"
    by (rule split_lines_single) (simp add: js_def)
  with len have "list_all (\<lambda>l. length l < 103) (split_lines (js ''HR 1''))" by simp
  with len short_lines_skipped [of "js ''HR 1''" "js ''HR 1''"] show ?thesis by blast
qed

text \<open>
  The specification's wording, that every line shorter than the 147-character layout is
  skipped, fails on a line of 103 characters with well-formed numeric fields: it is kept.
\<close>

theorem short_line_kept_counterexample:
  "length short_line < 147 \<and> length (parse short_line) = 1"
proof -
  have "length short_line < 147" by (simp add: short_line_def blanks_def js_def)
  moreover have "\<not> skipped short_line"
    by (simp add: skipped_def short_line_bsn short_line_ra short_line_de short_line_mag)
  ultimately show ?thesis by (simp add: parse_eq short_line_single)
qed

section \<open>Properties of the palette\<close>

lemma overflow_small: "\<bar>r\<bar> \<le> 2 ^ 64 \<Longrightarrow> overflow r = Fin r"
proof -
  assume a: "\<bar>r\<bar> \<le> 2 ^ 64"
  have "(2::real) ^ 64 < 2 ^ 1024 - 2 ^ 970" by simp
  with a show ?thesis by (auto simp: overflow_def max_bound_def)
qed

lemma createMaterials_step_eq:
  "createMaterials_step (acc, d) cls =
     (acc(cls \<mapsto> length (materials d)),
      d\<lparr>materials := materials d @
          [\<lparr>emissiveFactor = spectralClassToColor cls,
            baseColorFactor = spectralClassToColor cls @ [Fin 1],
            metallicFactor = Fin 0, roughnessFactor = Fin 1, extras_cls = Some cls\<rparr>]\<rparr>)"
  by (simp add: createMaterials_step_def createMaterial_def set_material_def Let_def)

lemma color_descriptor:
  "cls \<in> set starClasses \<Longrightarrow>
   \<lparr>emissiveFactor = spectralClassToColor cls,
    baseColorFactor = spectralClassToColor cls @ [Fin 1],
    metallicFactor = Fin 0, roughnessFactor = Fin 1, extras_cls = Some cls\<rparr> = descriptor cls"
  by (auto simp: starClasses_def descriptor_def spectralClassToColor_def toUpperCase_def js_def
      Let_def overflow_small)

lemma createMaterials_eq:
  "createMaterials d =
     (Map.empty (starClasses [\<mapsto>] map (\<lambda>i. length (materials d) + i) [0, 1, 2, 3, 4, 5, 6, 7, 8, 9]),
      d\<lparr>materials := materials d @ map descriptor starClasses\<rparr>)"
  apply (simp add: createMaterials_def)
  apply (simp add: starClasses_def createMaterials_step_eq color_descriptor [unfolded starClasses_def])
  apply (simp add: eval_nat_numeral)
  done

lemma starClasses_distinct: "distinct starClasses"
  by (simp add: starClasses_def js_def)

lemma descriptors_distinct: "distinct (map descriptor starClasses)"
proof -
  have "inj_on descriptor (set starClasses)"
  proof (rule inj_onI)
    fix a b assume "descriptor a = descriptor b"
    then have "extras_cls (descriptor a) = extras_cls (descriptor b)" by simp
    then show "a = b" by (simp add: descriptor_def Let_def)
  qed
  with starClasses_distinct show ?thesis by (simp add: distinct_map)
qed

lemma descriptor_channels:
  "c \<in> set starClasses \<Longrightarrow> list_all unit_channel (emissiveFactor (descriptor c))"
  by (auto simp: starClasses_def descriptor_def js_def Let_def)

lemma palette_dom: "dom (fst (createMaterials d)) = set starClasses"
proof -
  have "length starClasses = 10" by (simp add: starClasses_def)
  then show ?thesis by (simp add: createMaterials_eq)
qed

text \<open>
  C8. Whatever the document held before, and with no reference to the catalogue,
  \<open>createMaterials\<close> appends exactly ten material descriptors, one per letter of
  \<open>OWBAFGKMCS\<close> in that order, and maps each letter to its descriptor. The ten
  descriptors are pairwise distinct. Each stores the table colour of its letter with every
  channel squared, as emissive colour and, followed by alpha 1, as base colour; each
  channel lies in \<open>[0, 1]\<close>; metallic is 0, roughness is 1 and \<open>extras.cls\<close> is the
  letter.
\<close>

theorem palette_descriptors:
  "materials (snd (createMaterials d)) = materials d @ map descriptor starClasses \<and>
   map (fst (createMaterials d)) starClasses =
     map Some [length (materials d) ..< length (materials d) + 10] \<and>
   dom (fst (createMaterials d)) = set starClasses \<and>
   length starClasses = 10 \<and>
   distinct (map descriptor starClasses) \<and>
   list_all (\<lambda>c. list_all unit_channel (emissiveFactor (descriptor c)) \<and>
                 baseColorFactor (descriptor c) = emissiveFactor (descriptor c) @ [Fin 1] \<and>
                 metallicFactor (descriptor c) = Fin 0 \<and>
                 roughnessFactor (descriptor c) = Fin 1 \<and>
                 extras_cls (descriptor c) = Some c) starClasses"
proof -
  have 1: "materials (snd (createMaterials d)) = materials d @ map descriptor starClasses"
    by (simp add: createMaterials_eq)
  have 2: "map (fst (createMaterials d)) starClasses =
     map Some [length (materials d) ..< length (materials d) + 10]"
    apply (simp add: createMaterials_eq)
    apply (simp add: starClasses_def js_def upt_rec [of "length (materials d)"])
    apply (simp add: upt_rec eval_nat_numeral)
    done
  have 3: "dom (fst (createMaterials d)) = set starClasses"
    by (rule palette_dom)
  have 4: "length starClasses = 10" by (simp add: starClasses_def)
  have "\<forall>c\<in>set starClasses.
          list_all unit_channel (emissiveFactor (descriptor c)) \<and>
          baseColorFactor (descriptor c) = emissiveFactor (descriptor c) @ [Fin 1] \<and>
          metallicFactor (descriptor c) = Fin 0 \<and>
          roughnessFactor (descriptor c) = Fin 1 \<and>
          extras_cls (descriptor c) = Some c"
  proof
    fix c assume "c \<in> set starClasses"
    from descriptor_channels [OF this]
    show "list_all unit_channel (emissiveFactor (descriptor c)) \<and>
          baseColorFactor (descriptor c) = emissiveFactor (descriptor c) @ [Fin 1] \<and>
          metallicFactor (descriptor c) = Fin 0 \<and>
          roughnessFactor (descriptor c) = Fin 1 \<and>
          extras_cls (descriptor c) = Some c"
      by (simp add: descriptor_def Let_def)
  qed
  then have 5: "list_all (\<lambda>c. list_all unit_channel (emissiveFactor (descriptor c)) \<and>
                 baseColorFactor (descriptor c) = emissiveFactor (descriptor c) @ [Fin 1] \<and>
                 metallicFactor (descriptor c) = Fin 0 \<and>
                 roughnessFactor (descriptor c) = Fin 1 \<and>
                 extras_cls (descriptor c) = Some c) starClasses"
    by (simp only: list_all_iff)
  from 1 2 3 4 5 descriptors_distinct show ?thesis by blast
qed

section \<open>Properties of \<open>render\<close>\<close>

lemma computeTransform_scratch_free:
  "snd (computeTransform s ra de mag) = snd (computeTransform s' ra de mag)"
  by (simp add: computeTransform_def setFromAxisAngle_def mul2_def transformVector_def Let_def)

lemma computeTransform_fresh:
  "snd (computeTransform s (rightAscension star) (declination star) (magnitude star)) =
     star_transform star"
  unfolding star_transform_def by (rule computeTransform_scratch_free)

lemma render_star_eq:
  "render_star acc mats (s, d) star =
     (fst (computeTransform s (rightAscension star) (declination star) (magnitude star)),
      d\<lparr>primitives := primitives d @ [star_primitive acc mats star],
        meshes := meshes d @ [\<lparr>mesh_primitives = [length (primitives d)]\<rparr>],
        nodes := nodes d @ [star_node (length (meshes d)) star],
        scene_children := scene_children d @ [length (nodes d)]\<rparr>)"
  by (simp add: render_star_def createPrimitive_def set_primitive_def createMesh_def
      addPrimitive_def createNode_def set_node_def addChild_def star_primitive_def
      star_node_def computeTransform_fresh Let_def split_beta)

lemma render_loop:
  "snd (foldl (render_star acc mats) (s, d) es) =
     d\<lparr>primitives := primitives d @ map (star_primitive acc mats) es,
       meshes := meshes d @
         map (\<lambda>i. \<lparr>mesh_primitives = [length (primitives d) + i]\<rparr>) [0 ..< length es],
       nodes := nodes d @
         map (\<lambda>(i, e). star_node (length (meshes d) + i) e) (zip [0 ..< length es] es),
       scene_children := scene_children d @
         map (\<lambda>i. length (nodes d) + i) [0 ..< length es]\<rparr>"
proof (induction es rule: rev_induct)
  case Nil
  show ?case by simp
next
  case (snoc e es)
  obtain s' d' where sd: "foldl (render_star acc mats) (s, d) es = (s', d')"
    by (cases "foldl (render_star acc mats) (s, d) es")
  with snoc.IH have d': "d' =
     d\<lparr>primitives := primitives d @ map (star_primitive acc mats) es,
       meshes := meshes d @
         map (\<lambda>i. \<lparr>mesh_primitives = [length (primitives d) + i]\<rparr>) [0 ..< length es],
       nodes := nodes d @
         map (\<lambda>(i, e). star_node (length (meshes d) + i) e) (zip [0 ..< length es] es),
       scene_children := scene_children d @
         map (\<lambda>i. length (nodes d) + i) [0 ..< length es]\<rparr>"
    by simp
  have "snd (foldl (render_star acc mats) (s, d) (es @ [e])) =
        snd (render_star acc mats (s', d') e)"
    by (simp add: sd)
  also have "\<dots> = d'\<lparr>primitives := primitives d' @ [star_primitive acc mats e],
        meshes := meshes d' @ [\<lparr>mesh_primitives = [length (primitives d')]\<rparr>],
        nodes := nodes d' @ [star_node (length (meshes d')) e],
        scene_children := scene_children d' @ [length (nodes d')]\<rparr>"
    by (simp add: render_star_eq)
  also have "\<dots> = d\<lparr>primitives := primitives d @ map (star_primitive acc mats) (es @ [e]),
       meshes := meshes d @
         map (\<lambda>i. \<lparr>mesh_primitives = [length (primitives d) + i]\<rparr>) [0 ..< length (es @ [e])],
       nodes := nodes d @
         map (\<lambda>(i, e). star_node (length (meshes d) + i) e)
           (zip [0 ..< length (es @ [e])] (es @ [e])),
       scene_children := scene_children d @
         map (\<lambda>i. length (nodes d) + i) [0 ..< length (es @ [e])]\<rparr>"
    by (simp add: d')
  finally show ?case .
qed

lemma render_eq:
  "render es mats d =
     d\<lparr>buffers := buffers d + 1,
       accessors := accessors d @ [\<lparr>acc_type = ''VEC3'', acc_array = octagon\<rparr>],
       primitives := primitives d @ map (star_primitive (length (accessors d)) mats) es,
       meshes := meshes d @
         map (\<lambda>i. \<lparr>mesh_primitives = [length (primitives d) + i]\<rparr>) [0 ..< length es],
       nodes := nodes d @
         map (\<lambda>(i, e). star_node (length (meshes d) + i) e) (zip [0 ..< length es] es),
       scene_children := scene_children d @
         map (\<lambda>i. length (nodes d) + i) [0 ..< length es]\<rparr>"
  by (simp add: render_def createAccessor_def set_accessor_def render_loop Let_def)

lemma assemble_eq:
  "assemble es =
     \<lparr>buffers = 1,
      accessors = [\<lparr>acc_type = ''VEC3'', acc_array = octagon\<rparr>],
      materials = map descriptor starClasses,
      primitives = map (star_primitive 0 (fst (createMaterials new_document))) es,
      meshes = map (\<lambda>i. \<lparr>mesh_primitives = [i]\<rparr>) [0 ..< length es],
      nodes = map (\<lambda>(i, e). star_node i e) (zip [0 ..< length es] es),
      scene_children = [0 ..< length es]\<rparr>"
proof -
  have "snd (createMaterials new_document) =
          new_document\<lparr>materials := map descriptor starClasses\<rparr>"
    by (simp add: createMaterials_eq new_document_def)
  then have "assemble es =
      render es (fst (createMaterials new_document))
        (new_document\<lparr>materials := map descriptor starClasses\<rparr>)"
    by (simp add: assemble_def Let_def split_beta)
  then show ?thesis by (simp add: render_eq new_document_def map_idI)
qed

lemma palette_lookup:
  "c \<in> set starClasses \<Longrightarrow>
   \<exists>k<10. fst (createMaterials new_document) c = Some k \<and> starClasses ! k = c"
  by (auto simp: createMaterials_eq new_document_def starClasses_def js_def)

lemma palette_miss:
  "c \<notin> set starClasses \<Longrightarrow> fst (createMaterials new_document) c = None"
  using palette_dom [of new_document] by (auto simp: dom_def)

lemma assemble_node:
  "i < length es \<Longrightarrow> node_of_star (assemble es) i = star_node i (es ! i)"
  by (simp add: node_of_star_def assemble_eq)

lemma assemble_primitive:
  "i < length es \<Longrightarrow>
   primitive_of_node (assemble es) (node_of_star (assemble es) i) =
     Some (star_primitive 0 (fst (createMaterials new_document)) (es ! i))"
  by (simp add: assemble_node primitive_of_node_def star_node_def) (simp add: assemble_eq)


text \<open>
  C2. Assembling \<open>N\<close> records whose spectral class is one of the ten letters yields
  exactly \<open>N\<close> scene children, in the order of the records (the \<open>i\<close>-th child carries
  the magnitude, id and name of the \<open>i\<close>-th record). The document holds one accessor, the
  octagon, and the primitive of every node's mesh has that accessor as its \<open>POSITION\<close>;
  its material is one of the ten descriptors of the palette, the one of the record's
  class.
\<close>

theorem assemble_nodes:
  assumes "list_all valid_class entries"
  shows "scene_children (assemble entries) = [0 ..< length entries] \<and>
         length (nodes (assemble entries)) = length entries \<and>
         accessors (assemble entries) = [\<lparr>acc_type = ''VEC3'', acc_array = octagon\<rparr>] \<and>
         materials (assemble entries) = map descriptor starClasses \<and>
         (\<forall>i<length entries.
            extras_bsn (node_of_star (assemble entries) i) = Some (bsn (entries ! i)) \<and>
            extras_mag (node_of_star (assemble entries) i) = Some (magnitude (entries ! i)) \<and>
            extras_name (node_of_star (assemble entries) i) = Some (name (entries ! i)) \<and>
            (\<exists>p k. primitive_of_node (assemble entries) (node_of_star (assemble entries) i)
                     = Some p \<and>
                   attr_POSITION p = Some 0 \<and> prim_mode p = 6 \<and>
                   prim_material p = Some k \<and> k < 10 \<and>
                   extras_cls (materials (assemble entries) ! k) =
                     spectralClass (entries ! i)))"
proof -
  have "\<exists>p k. primitive_of_node (assemble entries) (node_of_star (assemble entries) i) = Some p \<and>
          attr_POSITION p = Some 0 \<and> prim_mode p = 6 \<and> prim_material p = Some k \<and> k < 10 \<and>
          extras_cls (materials (assemble entries) ! k) = spectralClass (entries ! i)"
    if i: "i < length entries" for i
  proof -
    from assms i have "valid_class (entries ! i)" by (simp add: list_all_length)
    then obtain c where c: "spectralClass (entries ! i) = Some c" "c \<in> set starClasses"
      by (auto simp: valid_class_def)
    from palette_lookup [OF c(2)] obtain k where
      k: "k < 10" "fst (createMaterials new_document) c = Some k" "starClasses ! k = c"
      by blast
    have len: "length starClasses = 10" by (simp add: starClasses_def)
    from k len have "extras_cls (materials (assemble entries) ! k) = Some c"
      by (simp add: assemble_eq descriptor_def Let_def)
    with c k show ?thesis
      by (simp add: assemble_primitive [OF i] star_primitive_def lookup_def)
  qed
  moreover have "\<forall>i<length entries.
      extras_bsn (node_of_star (assemble entries) i) = Some (bsn (entries ! i)) \<and>
      extras_mag (node_of_star (assemble entries) i) = Some (magnitude (entries ! i)) \<and>
      extras_name (node_of_star (assemble entries) i) = Some (name (entries ! i))"
    by (simp add: assemble_node star_node_def)
  moreover have "scene_children (assemble entries) = [0 ..< length entries]"
    "length (nodes (assemble entries)) = length entries"
    "accessors (assemble entries) = [\<lparr>acc_type = ''VEC3'', acc_array = octagon\<rparr>]"
    "materials (assemble entries) = map descriptor starClasses"
    by (simp_all add: assemble_eq)
  ultimately show ?thesis by blast
qed

theorem assemble_nodes_witness:
  "list_all valid_class [sirius, betelgeuse] \<and>
   scene_children (assemble [sirius, betelgeuse]) = [0, 1] \<and>
   length (accessors (assemble [sirius, betelgeuse])) = 1 \<and>
   extras_bsn (node_of_star (assemble [sirius, betelgeuse]) 1) = Some (Fin 2061) \<and>
   (\<exists>p k. primitive_of_node (assemble [sirius, betelgeuse])
             (node_of_star (assemble [sirius, betelgeuse]) 1) = Some p \<and>
          attr_POSITION p = Some 0 \<and> prim_material p = Some k \<and> k < 10 \<and>
          extras_cls (materials (assemble [sirius, betelgeuse]) ! k) = Some (js ''M''))"
proof -
  have v: "list_all valid_class [sirius, betelgeuse]"
    by (simp add: valid_class_def sirius_def betelgeuse_def starClasses_def)
  let ?es = "[sirius, betelgeuse]"
  note th = assemble_nodes [OF v]
  from th have sc: "scene_children (assemble ?es) = [0 ..< length ?es]" by (rule conjunct1)
  from th have ac: "accessors (assemble ?es) = [\<lparr>acc_type = ''VEC3'', acc_array = octagon\<rparr>]"
    by blast
  from th have all: "\<forall>i<length ?es.
            extras_bsn (node_of_star (assemble ?es) i) = Some (bsn (?es ! i)) \<and>
            extras_mag (node_of_star (assemble ?es) i) = Some (magnitude (?es ! i)) \<and>
            extras_name (node_of_star (assemble ?es) i) = Some (name (?es ! i)) \<and>
            (\<exists>p k. primitive_of_node (assemble ?es) (node_of_star (assemble ?es) i)
                     = Some p \<and>
                   attr_POSITION p = Some 0 \<and> prim_mode p = 6 \<and>
                   prim_material p = Some k \<and> k < 10 \<and>
                   extras_cls (materials (assemble ?es) ! k) = spectralClass (?es ! i))"
    by blast
  have l: "1 < length ?es" by simp
  note one = all [rule_format, OF l]
  have "[0 ..< length ?es] = [0, 1]" by (simp add: upt_rec)
  with sc have sc': "scene_children (assemble ?es) = [0, 1]" by simp
  from one have "extras_bsn (node_of_star (assemble ?es) 1) = Some (Fin 2061)"
    by (simp add: betelgeuse_def)
  moreover from one obtain p k where
    "primitive_of_node (assemble ?es) (node_of_star (assemble ?es) 1) = Some p"
    "attr_POSITION p = Some 0" "prim_material p = Some k" "k < 10"
    "extras_cls (materials (assemble ?es) ! k) = spectralClass (?es ! 1)"
    by blast
  then have "\<exists>p k. primitive_of_node (assemble ?es)
             (node_of_star (assemble ?es) 1) = Some p \<and>
          attr_POSITION p = Some 0 \<and> prim_material p = Some k \<and> k < 10 \<and>
          extras_cls (materials (assemble ?es) ! k) = Some (js ''M'')"
    by (simp add: betelgeuse_def)
  ultimately show ?thesis using v sc' ac by simp
qed


lemma class_N_line_bsn: "bsn_of class_N_line = Fin 9"
  apply (simp add: class_N_line_def bsn_of_def substring_take_drop blanks_def js_def)
  apply (simp add: literal_simps)
  done

lemma class_N_line_ra: "ra_of class_N_line = Fin 0"
  apply (simp add: class_N_line_def ra_of_def substring_take_drop blanks_def js_def)
  apply (simp add: literal_simps)
  done

lemma class_N_line_de: "de_of class_N_line = Fin 0"
  apply (simp add: class_N_line_def de_of_def substring_take_drop blanks_def js_def)
  apply (simp add: literal_simps)
  done

lemma class_N_line_mag: "mag_of class_N_line = Fin (13 / 2)"
  apply (simp add: class_N_line_def mag_of_def substring_take_drop blanks_def js_def)
  apply (simp add: literal_simps)
  done

lemma dropWhile_blanks:
  "dropWhile isWhiteSpace (replicate n 0x20 @ s) = dropWhile isWhiteSpace s"
  by (induction n) (simp_all add: isWhiteSpace_def)

lemma class_N_line_class: "charAt0 (trim (substring class_N_line 127 147)) = Some (js ''N'')"
  apply (simp add: class_N_line_def substring_take_drop blanks_def js_def)
  apply (simp add: trim_def isWhiteSpace_def charAt0_def dropWhile_blanks)
  done

lemma class_N_line_single: "split_lines class_N_line = [class_N_line]"
  by (rule split_lines_single) (simp add: class_N_line_def blanks_def js_def)

lemma class_N_not_in_palette: "js ''N'' \<notin> set starClasses"
  by (simp add: starClasses_def js_def)


text \<open>
  C1 does not hold. The catalogue line \<open>class_N_line\<close> parses to one record, of spectral
  class \<open>N\<close>; \<open>materials["N"]\<close> is \<open>undefined\<close>, so the primitive of the star's node
  is given no material at all, not the white descriptor that \<open>spectralClassToColor\<close>
  computes for unknown letters.
\<close>

theorem unknown_class_no_material:
  "map spectralClass (parse class_N_line) = [Some (js ''N'')] \<and>
   map_option prim_material
     (primitive_of_node (assemble (parse class_N_line))
        (node_of_star (assemble (parse class_N_line)) 0)) = Some None"
proof -
  have kept: "\<not> skipped class_N_line"
    by (simp add: skipped_def class_N_line_bsn class_N_line_ra class_N_line_de
        class_N_line_mag)
  then obtain r where r: "parse class_N_line = [r]" "spectralClass r = Some (js ''N'')"
    by (simp add: parse_eq class_N_line_single parse_line_eq class_N_line_class)
  have "primitive_of_node (assemble [r]) (node_of_star (assemble [r]) 0) =
          Some (star_primitive 0 (fst (createMaterials new_document)) r)"
    using assemble_primitive [of 0 "[r]"] by simp
  with r show ?thesis
    by (simp add: star_primitive_def lookup_def palette_miss [OF class_N_not_in_palette])
qed

text \<open>
  C7. The transform computed for a star does not depend on what the scratch rotations
  held before: from any two scratch states the same right ascension, declination and
  magnitude give the same rounded rotation, scale and translation. Hence two stars with
  the same three inputs, at any positions of any two record sequences, get the same
  rotation, scale and translation.
\<close>

theorem transform_determined_by_inputs:
  "snd (computeTransform s ra de mag) = snd (computeTransform s' ra de mag) \<and>
   (i < length es \<and> j < length es' \<and>
    rightAscension (es ! i) = rightAscension (es' ! j) \<and>
    declination (es ! i) = declination (es' ! j) \<and>
    magnitude (es ! i) = magnitude (es' ! j) \<longrightarrow>
      node_rotation (node_of_star (assemble es) i) =
        node_rotation (node_of_star (assemble es') j) \<and>
      node_scale (node_of_star (assemble es) i) =
        node_scale (node_of_star (assemble es') j) \<and>
      node_translation (node_of_star (assemble es) i) =
        node_translation (node_of_star (assemble es') j))"
  by (auto simp: assemble_node star_node_def star_transform_def
      intro: computeTransform_scratch_free)

theorem transform_determined_by_inputs_witness:
  "node_rotation (node_of_star (assemble [betelgeuse, sirius]) 1) =
     node_rotation (node_of_star (assemble [sirius_twin]) 0) \<and>
   node_scale (node_of_star (assemble [betelgeuse, sirius]) 1) =
     node_scale (node_of_star (assemble [sirius_twin]) 0) \<and>
   node_translation (node_of_star (assemble [betelgeuse, sirius]) 1) =
     node_translation (node_of_star (assemble [sirius_twin]) 0)"
  using transform_determined_by_inputs [of _ _ _ _ _ 1 "[betelgeuse, sirius]" 0 "[sirius_twin]"]
  by (simp add: sirius_twin_def)

section \<open>The scale of a star\<close>

lemma max_bound_pos: "0 < max_bound"
  by (simp add: max_bound_def)

lemma max_bound_le: "max_bound \<le> 2 ^ 1024"
  by (simp add: max_bound_def)

lemma overflow_mono: "a \<le> b \<Longrightarrow> js_le (overflow a) (overflow b)"
  using max_bound_pos by (auto simp: overflow_def)

lemma js_div_pos_mono:
  assumes "0 < c" "js_le x y"
  shows "js_le (js_div x (Fin c)) (js_div y (Fin c))"
proof (cases x)
  case (Fin a)
  show ?thesis
  proof (cases y)
    case (Fin b)
    with assms \<open>x = Fin a\<close> have "a / c \<le> b / c" by (simp add: divide_right_mono)
    with assms Fin \<open>x = Fin a\<close> show ?thesis by (simp add: overflow_mono)
  qed (use assms Fin in \<open>auto simp: overflow_def\<close>)
qed (use assms in \<open>cases y; auto simp: overflow_def\<close>)+

lemma js_pow4_mono:
  assumes "js_le x y"
  shows "js_le (js_pow4 x) (js_pow4 y)"
proof (cases x)
  case (Fin a)
  show ?thesis
  proof (cases y)
    case (Fin b)
    with assms \<open>x = Fin a\<close> have "(4::real) powr a \<le> 4 powr b" by (simp add: powr_mono)
    with Fin \<open>x = Fin a\<close> show ?thesis by (simp add: overflow_mono)
  qed (use assms Fin in \<open>auto simp: overflow_def\<close>)
next
  case NInf
  have "js_le (Fin 0) (overflow (4 powr b))" for b :: real
  proof -
    have "0 < (4::real) powr b" by simp
    with max_bound_pos have "\<not> 4 powr b \<le> - max_bound" by linarith
    then show ?thesis by (simp add: overflow_def)
  qed
  with NInf assms show ?thesis by (cases y) simp_all
qed (use assms in \<open>cases y; auto simp: overflow_def\<close>)+

lemma js_sub_anti: "a \<le> b \<Longrightarrow> js_le (js_sub (Fin c) (Fin b)) (js_sub (Fin c) (Fin a))"
  by (simp add: js_sub_def overflow_mono)

lemma star_scale_antitone: "m1 \<le> m2 \<Longrightarrow> js_le (star_scale (Fin m2)) (star_scale (Fin m1))"
  unfolding star_scale_def
  by (intro js_div_pos_mono js_pow4_mono js_sub_anti) simp_all

lemma pow4_overflows: "512 \<le> y \<Longrightarrow> js_pow4 (Fin y) = PInf"
proof -
  assume y: "512 \<le> y"
  have "(4::real) powr 512 \<le> 4 powr y" using y by (intro powr_mono) simp_all
  moreover have "(4::real) powr 512 = 2 ^ 1024"
  proof -
    have "(4::real) powr 512 = 4 powr (real (512::nat))" by simp
    also have "\<dots> = 4 ^ 512" by (subst powr_realpow) simp_all
    also have "\<dots> = (2 ^ 2) ^ 512" by simp
    also have "\<dots> = 2 ^ 1024" by (simp only: power_mult [symmetric]) simp
    finally show ?thesis .
  qed
  ultimately have "max_bound \<le> 4 powr y" using max_bound_le by linarith
  then show ?thesis by (simp add: overflow_def)
qed

lemma scale_9999: "star_scale (Fin (- 9999)) = PInf"
proof -
  have "js_div (js_sub (Fin 6) (Fin (- 9999))) (Fin 4) = Fin (10005 / 4)"
    by (simp add: js_sub_def overflow_def max_bound_def)
  then have "star_scale (Fin (- 9999)) = js_div (js_pow4 (Fin (10005 / 4))) (Fin 15)"
    by (simp only: star_scale_def)
  also have "\<dots> = PInf" by (subst pow4_overflows) simp_all
  finally show ?thesis .
qed

lemma scale_9998: "star_scale (Fin (- 9998)) = PInf"
proof -
  have "js_div (js_sub (Fin 6) (Fin (- 9998))) (Fin 4) = Fin (2501)"
    by (simp add: js_sub_def overflow_def max_bound_def)
  then have "star_scale (Fin (- 9998)) = js_div (js_pow4 (Fin 2501)) (Fin 15)"
    by (simp only: star_scale_def)
  also have "\<dots> = PInf" by (subst pow4_overflows) simp_all
  finally show ?thesis .
qed


text \<open>
  C6, as amended. The scale \<open>4 ** ((6 - m) / 4) / 15\<close> is antitone in the magnitude:
  between two magnitudes, the smaller one never has the smaller scale. Each of the three
  components of the node's scale is that one number, rounded to two decimals.
\<close>

theorem scale_monotone:
  "(m1 \<le> m2 \<longrightarrow> js_le (star_scale (Fin m2)) (star_scale (Fin m1))) \<and>
   scales (snd (computeTransform s ra de mag)) =
     [toFixed_parsed 2 (star_scale mag), toFixed_parsed 2 (star_scale mag),
      toFixed_parsed 2 (star_scale mag)]"
  by (simp add: star_scale_antitone computeTransform_def Let_def)

theorem scale_monotone_witness:
  "(1::real) \<le> 2 \<and> js_le (star_scale (Fin 2)) (star_scale (Fin 1))"
  using scale_monotone [of 1 2] by simp


text \<open>
  The specification asks for a strictly larger scale. For the magnitudes \<open>-9999\<close> and
  \<open>-9998\<close> the power exceeds the double range and both scales are \<open>Infinity\<close>.
\<close>

theorem scale_not_strict_counterexample:
  "(- 9999 :: real) < - 9998 \<and> \<not> js_less (star_scale (Fin (- 9998))) (star_scale (Fin (- 9999)))"
  by (simp add: scale_9999 scale_9998 js_less_def)

section \<open>The translation of a star\<close>

lemma overflow_in_range: "\<bar>r\<bar> < max_bound \<Longrightarrow> overflow r = Fin r"
  by (auto simp: overflow_def)

lemma fw_leaf: "\<bar>r\<bar> \<le> B \<Longrightarrow> fin_within B (Fin r) r"
  by (simp add: fin_within_def)

lemma fw_neg: "fin_within A x a \<Longrightarrow> fin_within A (js_neg x) (- a)"
  by (simp add: fin_within_def)

lemma fw_add:
  "fin_within A x a \<Longrightarrow> fin_within B y b \<Longrightarrow> A + B \<le> 2 ^ 64 \<Longrightarrow>
   fin_within (A + B) (js_add x y) (a + b)"
  unfolding fin_within_def
  by (auto intro!: overflow_small)

lemma fw_sub:
  "fin_within A x a \<Longrightarrow> fin_within B y b \<Longrightarrow> A + B \<le> 2 ^ 64 \<Longrightarrow>
   fin_within (A + B) (js_sub x y) (a - b)"
  unfolding fin_within_def js_sub_def
  by (auto intro!: overflow_small)

lemma fw_mul:
  assumes "fin_within A x a" "fin_within B y b" "A * B \<le> 2 ^ 64"
  shows "fin_within (A * B) (js_mul x y) (a * b)"
proof -
  from assms have x: "x = Fin a" "\<bar>a\<bar> \<le> A" and y: "y = Fin b" "\<bar>b\<bar> \<le> B"
    by (simp_all add: fin_within_def)
  have "\<bar>a * b\<bar> \<le> A * B"
    unfolding abs_mult using x(2) y(2) by (intro mult_mono) auto
  with assms(3) x(1) y(1) show ?thesis
    by (simp add: fin_within_def overflow_small)
qed

lemmas fw_rules = fw_sub fw_add fw_mul fw_neg fw_leaf

lemma mul2_real:
  assumes l: "qx lhs = Fin x1" "qy lhs = Fin y1" "qz lhs = Fin z1" "qw lhs = Fin w1"
    and r: "qx rhs = Fin x2" "qy rhs = Fin y2" "qz rhs = Fin z2" "qw rhs = Fin w2"
    and b: "\<bar>x1\<bar> \<le> 1" "\<bar>y1\<bar> \<le> 1" "\<bar>z1\<bar> \<le> 1" "\<bar>w1\<bar> \<le> 1"
      "\<bar>x2\<bar> \<le> 1" "\<bar>y2\<bar> \<le> 1" "\<bar>z2\<bar> \<le> 1" "\<bar>w2\<bar> \<le> 1"
  shows "mul2 this lhs rhs =
         this\<lparr>qx := Fin (w1 * x2 + x1 * w2 + y1 * z2 - z1 * y2),
              qy := Fin (w1 * y2 + y1 * w2 + z1 * x2 - x1 * z2),
              qz := Fin (w1 * z2 + z1 * w2 + x1 * y2 - y1 * x2),
              qw := Fin (w1 * w2 - x1 * x2 - y1 * y2 - z1 * z2)\<rparr>"
proof -
  have "\<exists>B. fin_within B
      (js_sub (js_add (js_add (js_mul (Fin w1) (Fin x2)) (js_mul (Fin x1) (Fin w2)))
                      (js_mul (Fin y1) (Fin z2))) (js_mul (Fin z1) (Fin y2)))
      (w1 * x2 + x1 * w2 + y1 * z2 - z1 * y2)"
    by (rule exI, (rule fw_rules b | simp)+)
  moreover have "\<exists>B. fin_within B
      (js_sub (js_add (js_add (js_mul (Fin w1) (Fin y2)) (js_mul (Fin y1) (Fin w2)))
                      (js_mul (Fin z1) (Fin x2))) (js_mul (Fin x1) (Fin z2)))
      (w1 * y2 + y1 * w2 + z1 * x2 - x1 * z2)"
    by (rule exI, (rule fw_rules b | simp)+)
  moreover have "\<exists>B. fin_within B
      (js_sub (js_add (js_add (js_mul (Fin w1) (Fin z2)) (js_mul (Fin z1) (Fin w2)))
                      (js_mul (Fin x1) (Fin y2))) (js_mul (Fin y1) (Fin x2)))
      (w1 * z2 + z1 * w2 + x1 * y2 - y1 * x2)"
    by (rule exI, (rule fw_rules b | simp)+)
  moreover have "\<exists>B. fin_within B
      (js_sub (js_sub (js_sub (js_mul (Fin w1) (Fin w2)) (js_mul (Fin x1) (Fin x2)))
                      (js_mul (Fin y1) (Fin y2))) (js_mul (Fin z1) (Fin z2)))
      (w1 * w2 - x1 * x2 - y1 * y2 - z1 * z2)"
    by (rule exI, (rule fw_rules b | simp)+)
  ultimately show ?thesis
    by (simp add: mul2_def fin_within_def l r del: js_add.simps js_mul.simps)
qed

lemma transformVector_real:
  assumes q: "qx q = Fin X" "qy q = Fin Y" "qz q = Fin Z" "qw q = Fin W"
    and v: "vx v = Fin x" "vy v = Fin y" "vz v = Fin z"
    and b: "\<bar>X\<bar> \<le> 1" "\<bar>Y\<bar> \<le> 1" "\<bar>Z\<bar> \<le> 1" "\<bar>W\<bar> \<le> 1"
      "\<bar>x\<bar> \<le> 1" "\<bar>y\<bar> \<le> 1" "\<bar>z\<bar> \<le> 1"
  shows "transformVector q v =
     \<lparr>vx = Fin ((W * x + Y * z - Z * y) * W + (- X * x - Y * y - Z * z) * - X +
                (W * y + Z * x - X * z) * - Z - (W * z + X * y - Y * x) * - Y),
      vy = Fin ((W * y + Z * x - X * z) * W + (- X * x - Y * y - Z * z) * - Y +
                (W * z + X * y - Y * x) * - X - (W * x + Y * z - Z * y) * - Z),
      vz = Fin ((W * z + X * y - Y * x) * W + (- X * x - Y * y - Z * z) * - Z +
                (W * x + Y * z - Z * y) * - Y - (W * y + Z * x - X * z) * - X)\<rparr>"
proof -
  let ?ix = "js_sub (js_add (js_mul (Fin W) (Fin x)) (js_mul (Fin Y) (Fin z)))
                    (js_mul (Fin Z) (Fin y))"
  let ?iy = "js_sub (js_add (js_mul (Fin W) (Fin y)) (js_mul (Fin Z) (Fin x)))
                    (js_mul (Fin X) (Fin z))"
  let ?iz = "js_sub (js_add (js_mul (Fin W) (Fin z)) (js_mul (Fin X) (Fin y)))
                    (js_mul (Fin Y) (Fin x))"
  let ?iw = "js_sub (js_sub (js_mul (js_neg (Fin X)) (Fin x)) (js_mul (Fin Y) (Fin y)))
                    (js_mul (Fin Z) (Fin z))"
  have "\<exists>B. fin_within B
      (js_sub (js_add (js_add (js_mul ?ix (Fin W)) (js_mul ?iw (js_neg (Fin X))))
                      (js_mul ?iy (js_neg (Fin Z)))) (js_mul ?iz (js_neg (Fin Y))))
      ((W * x + Y * z - Z * y) * W + (- X * x - Y * y - Z * z) * - X +
       (W * y + Z * x - X * z) * - Z - (W * z + X * y - Y * x) * - Y)"
    by (rule exI, (rule fw_rules b | simp)+)
  moreover have "\<exists>B. fin_within B
      (js_sub (js_add (js_add (js_mul ?iy (Fin W)) (js_mul ?iw (js_neg (Fin Y))))
                      (js_mul ?iz (js_neg (Fin X)))) (js_mul ?ix (js_neg (Fin Z))))
      ((W * y + Z * x - X * z) * W + (- X * x - Y * y - Z * z) * - Y +
       (W * z + X * y - Y * x) * - X - (W * x + Y * z - Z * y) * - Z)"
    by (rule exI, (rule fw_rules b | simp)+)
  moreover have "\<exists>B. fin_within B
      (js_sub (js_add (js_add (js_mul ?iz (Fin W)) (js_mul ?iw (js_neg (Fin Z))))
                      (js_mul ?ix (js_neg (Fin Y)))) (js_mul ?iy (js_neg (Fin X))))
      ((W * z + X * y - Y * x) * W + (- X * x - Y * y - Z * z) * - Z +
       (W * x + Y * z - Z * y) * - Y - (W * y + Z * x - X * z) * - X)"
    by (rule exI, (rule fw_rules b | simp)+)
  ultimately show ?thesis
    by (simp add: transformVector_def Let_def fin_within_def q v
        del: js_add.simps js_mul.simps js_neg.simps)
qed

lemma rotated_forward_unit:
  fixes X Y Z W :: real
  assumes "X * X + Y * Y + Z * Z + W * W = 1"
  shows "((W * 0 + Y * (- 1) - Z * 0) * W + (- X * 0 - Y * 0 - Z * (- 1)) * - X +
          (W * 0 + Z * 0 - X * (- 1)) * - Z - (W * (- 1) + X * 0 - Y * 0) * - Y)\<^sup>2 +
         ((W * 0 + Z * 0 - X * (- 1)) * W + (- X * 0 - Y * 0 - Z * (- 1)) * - Y +
          (W * (- 1) + X * 0 - Y * 0) * - X - (W * 0 + Y * (- 1) - Z * 0) * - Z)\<^sup>2 +
         ((W * (- 1) + X * 0 - Y * 0) * W + (- X * 0 - Y * 0 - Z * (- 1)) * - Z +
          (W * 0 + Y * (- 1) - Z * 0) * - Y - (W * 0 + Z * 0 - X * (- 1)) * - X)\<^sup>2 = 1"
proof -
  have "((W * 0 + Y * (- 1) - Z * 0) * W + (- X * 0 - Y * 0 - Z * (- 1)) * - X +
          (W * 0 + Z * 0 - X * (- 1)) * - Z - (W * (- 1) + X * 0 - Y * 0) * - Y)\<^sup>2 +
         ((W * 0 + Z * 0 - X * (- 1)) * W + (- X * 0 - Y * 0 - Z * (- 1)) * - Y +
          (W * (- 1) + X * 0 - Y * 0) * - X - (W * 0 + Y * (- 1) - Z * 0) * - Z)\<^sup>2 +
         ((W * (- 1) + X * 0 - Y * 0) * W + (- X * 0 - Y * 0 - Z * (- 1)) * - Z +
          (W * 0 + Y * (- 1) - Z * 0) * - Y - (W * 0 + Z * 0 - X * (- 1)) * - X)\<^sup>2
        = (X * X + Y * Y + Z * Z + W * W)\<^sup>2"
    by (simp add: power2_eq_square algebra_simps)
  with assms show ?thesis by simp
qed

lemma half_angle_fin:
  assumes "\<bar>a\<bar> < max_bound"
  shows "js_mul (Fin a) (js_mul (Fin 0.5) DEG_TO_RAD) = Fin (a * pi / 360)"
proof -
  have k: "0 \<le> pi / 360" "pi / 360 \<le> (1::real)"
    using pi_gt_zero pi_less_4 by simp_all
  then have "\<bar>pi / 360\<bar> \<le> (2::real) ^ 64" by simp
  then have "overflow (pi / 360) = Fin (pi / 360)" by (rule overflow_small)
  then have inner: "js_mul (Fin 0.5) DEG_TO_RAD = Fin (pi / 360)"
    by (simp add: DEG_TO_RAD_def)
  have "\<bar>a * (pi / 360)\<bar> = \<bar>a\<bar> * (pi / 360)"
    using k(1) by (simp add: abs_mult)
  also have "\<dots> \<le> \<bar>a\<bar> * 1" using k(2) by (intro mult_left_mono) simp_all
  finally have "\<bar>a * (pi / 360)\<bar> < max_bound" using assms by simp
  then have "overflow (a * (pi / 360)) = Fin (a * (pi / 360))" by (rule overflow_in_range)
  then show ?thesis unfolding inner by simp
qed

lemma overflow_unit: "\<bar>r\<bar> \<le> 1 \<Longrightarrow> overflow r = Fin r"
  by (rule overflow_small) simp

lemma overflow_zero: "overflow 0 = Fin 0"
  by (rule overflow_small) simp

lemma setFromAxisAngle_UP:
  assumes "\<bar>a\<bar> < max_bound"
  shows "setFromAxisAngle this UP (Fin a) =
           this\<lparr>qx := Fin 0, qy := Fin (sin (a * pi / 360)), qz := Fin 0,
                qw := Fin (cos (a * pi / 360))\<rparr>"
  unfolding setFromAxisAngle_def half_angle_fin [OF assms]
  by (simp add: UP_def overflow_unit overflow_zero Let_def)

lemma setFromAxisAngle_RIGHT:
  assumes "\<bar>b\<bar> < max_bound"
  shows "setFromAxisAngle this RIGHT (Fin b) =
           this\<lparr>qx := Fin (sin (b * pi / 360)), qy := Fin 0, qz := Fin 0,
                qw := Fin (cos (b * pi / 360))\<rparr>"
  unfolding setFromAxisAngle_def half_angle_fin [OF assms]
  by (simp add: RIGHT_def overflow_unit overflow_zero Let_def)

lemma abs_sin_cos_le_1:
  "\<bar>sin (u::real) * sin v\<bar> \<le> 1" "\<bar>sin u * cos v\<bar> \<le> 1" "\<bar>cos u * sin v\<bar> \<le> 1"
  "\<bar>cos u * cos v\<bar> \<le> 1"
  by (simp_all add: abs_mult mult_le_one)

lemma toFixed_parsed_unit: "\<bar>r\<bar> \<le> 1 \<Longrightarrow> toFixed_parsed f (Fin r) = Fin (round_to f r)"
  by (simp add: toFixed_parsed_def)

lemma translation_real:
  assumes a: "\<bar>a\<bar> < max_bound" and b: "\<bar>b\<bar> < max_bound"
  shows "\<exists>cx cy cz. cx\<^sup>2 + cy\<^sup>2 + cz\<^sup>2 = 1 \<and>
           translation (snd (computeTransform s (Fin a) (Fin b) mag)) =
             [Fin (round_to 3 cx), Fin (round_to 3 cy), Fin (round_to 3 cz)]"
proof -
  define sa ca sb cb where "sa = sin (a * pi / 360)"
    and "ca = cos (a * pi / 360)" and "sb = sin (b * pi / 360)"
    and "cb = cos (b * pi / 360)"
  define q where "q = mul2 (scr_q s) (setFromAxisAngle (scr_q1 s) UP (Fin a))
                        (setFromAxisAngle (scr_q2 s) RIGHT (Fin b))"
  define X Y Z W where "X = ca * sb" and "Y = sa * cb" and "Z = - (sa * sb)" and "W = ca * cb"
  have bnd: "\<bar>sa\<bar> \<le> 1" "\<bar>ca\<bar> \<le> 1" "\<bar>sb\<bar> \<le> 1" "\<bar>cb\<bar> \<le> 1"
    by (simp_all add: sa_def ca_def sb_def cb_def)
  have "q = (scr_q s)\<lparr>qx := Fin (ca * sb + 0 * cb + sa * 0 - 0 * 0),
                       qy := Fin (ca * 0 + sa * cb + 0 * sb - 0 * 0),
                       qz := Fin (ca * 0 + 0 * cb + 0 * 0 - sa * sb),
                       qw := Fin (ca * cb - 0 * sb - sa * 0 - 0 * 0)\<rparr>"
    unfolding q_def
    by (rule mul2_real)
      (simp_all add: setFromAxisAngle_UP [OF a] setFromAxisAngle_RIGHT [OF b]
        sa_def ca_def sb_def cb_def)
  then have q: "qx q = Fin X" "qy q = Fin Y" "qz q = Fin Z" "qw q = Fin W"
    by (simp_all add: X_def Y_def Z_def W_def)
  have XYZW: "\<bar>X\<bar> \<le> 1" "\<bar>Y\<bar> \<le> 1" "\<bar>Z\<bar> \<le> 1" "\<bar>W\<bar> \<le> 1"
    by (simp_all add: X_def Y_def Z_def W_def sa_def ca_def sb_def cb_def abs_sin_cos_le_1)
  have unit: "X * X + Y * Y + Z * Z + W * W = 1"
  proof -
    have "X * X + Y * Y + Z * Z + W * W = (sa\<^sup>2 + ca\<^sup>2) * (sb\<^sup>2 + cb\<^sup>2)"
      by (simp add: X_def Y_def Z_def W_def power2_eq_square algebra_simps)
    then show ?thesis by (simp add: sa_def ca_def sb_def cb_def)
  qed
  let ?cx = "(W * 0 + Y * (- 1) - Z * 0) * W + (- X * 0 - Y * 0 - Z * (- 1)) * - X +
             (W * 0 + Z * 0 - X * (- 1)) * - Z - (W * (- 1) + X * 0 - Y * 0) * - Y"
  let ?cy = "(W * 0 + Z * 0 - X * (- 1)) * W + (- X * 0 - Y * 0 - Z * (- 1)) * - Y +
             (W * (- 1) + X * 0 - Y * 0) * - X - (W * 0 + Y * (- 1) - Z * 0) * - Z"
  let ?cz = "(W * (- 1) + X * 0 - Y * 0) * W + (- X * 0 - Y * 0 - Z * (- 1)) * - Z +
             (W * 0 + Y * (- 1) - Z * 0) * - Y - (W * 0 + Z * 0 - X * (- 1)) * - X"
  have tv: "transformVector q FORWARD = \<lparr>vx = Fin ?cx, vy = Fin ?cy, vz = Fin ?cz\<rparr>"
    by (rule transformVector_real [OF q _ _ _ XYZW]) (simp_all add: FORWARD_def)
  have norm1: "?cx\<^sup>2 + ?cy\<^sup>2 + ?cz\<^sup>2 = 1"
    by (rule rotated_forward_unit [OF unit])
  have le1: "\<bar>?cx\<bar> \<le> 1" "\<bar>?cy\<bar> \<le> 1" "\<bar>?cz\<bar> \<le> 1"
  proof -
    have "0 \<le> ?cx\<^sup>2" "0 \<le> ?cy\<^sup>2" "0 \<le> ?cz\<^sup>2" by simp_all
    with norm1 have "?cx\<^sup>2 \<le> 1" "?cy\<^sup>2 \<le> 1" "?cz\<^sup>2 \<le> 1" by linarith+
    then show "\<bar>?cx\<bar> \<le> 1" "\<bar>?cy\<bar> \<le> 1" "\<bar>?cz\<bar> \<le> 1"
      by (simp_all only: abs_square_le_1)
  qed
  have "translation (snd (computeTransform s (Fin a) (Fin b) mag)) =
          [toFixed_parsed 3 (vx (transformVector q FORWARD)),
           toFixed_parsed 3 (vy (transformVector q FORWARD)),
           toFixed_parsed 3 (vz (transformVector q FORWARD))]"
    by (simp add: computeTransform_def q_def Let_def)
  also have "\<dots> = [Fin (round_to 3 ?cx), Fin (round_to 3 ?cy), Fin (round_to 3 ?cz)]"
    by (simp only: tv vec3.simps toFixed_parsed_unit [OF le1(1)]
        toFixed_parsed_unit [OF le1(2)] toFixed_parsed_unit [OF le1(3)])
  finally show ?thesis using norm1 by blast
qed

lemma round_to_error: "\<bar>round_to f r - r\<bar> \<le> 1 / (2 * 10 ^ f)"
proof -
  define t where "t = \<bar>r\<bar> * 10 ^ f"
  define n where "n = real_of_int \<lfloor>t + 1 / 2\<rfloor>"
  have "n \<le> t + 1 / 2" "t + 1 / 2 < n + 1"
    unfolding n_def by linarith+
  then have nt: "\<bar>n - t\<bar> \<le> 1 / 2" by linarith
  have r: "r = sgn r * t / 10 ^ f"
  proof -
    have "sgn r * t / 10 ^ f = (sgn r * \<bar>r\<bar>) * 10 ^ f / 10 ^ f"
      by (simp add: t_def mult.assoc)
    also have "\<dots> = sgn r * \<bar>r\<bar>" by simp
    also have "\<dots> = r" by (rule mult_sgn_abs)
    finally show ?thesis by simp
  qed
  have "round_to f r - r = sgn r * n / 10 ^ f - sgn r * t / 10 ^ f"
    using r by (simp add: round_to_def n_def t_def)
  also have "\<dots> = sgn r * ((n - t) / 10 ^ f)"
    by (simp add: algebra_simps diff_divide_distrib)
  finally have "\<bar>round_to f r - r\<bar> = \<bar>sgn r\<bar> * (\<bar>n - t\<bar> / 10 ^ f)"
    by (simp add: abs_mult)
  also have "\<dots> \<le> 1 * (\<bar>n - t\<bar> / 10 ^ f)"
    by (intro mult_right_mono) (simp_all add: abs_sgn_eq)
  also have "\<dots> = \<bar>n - t\<bar> / 10 ^ f" by simp
  also have "\<dots> \<le> (1 / 2) / 10 ^ f"
    by (rule divide_right_mono [OF nt]) simp
  finally show ?thesis by simp
qed

lemma rounded_unit_norm:
  fixes cx cy cz :: real
  assumes unit: "cx\<^sup>2 + cy\<^sup>2 + cz\<^sup>2 = 1"
  shows "0.998 \<le> sqrt (round_to 3 cx * round_to 3 cx + round_to 3 cy * round_to 3 cy +
                        round_to 3 cz * round_to 3 cz)"
    and "sqrt (round_to 3 cx * round_to 3 cx + round_to 3 cy * round_to 3 cy +
               round_to 3 cz * round_to 3 cz) \<le> 1.002"
proof -
  define ex ey ez where "ex = round_to 3 cx - cx" and "ey = round_to 3 cy - cy"
    and "ez = round_to 3 cz - cz"
  have e: "\<bar>ex\<bar> \<le> 1 / 2000" "\<bar>ey\<bar> \<le> 1 / 2000" "\<bar>ez\<bar> \<le> 1 / 2000"
    using round_to_error [of 3 cx] round_to_error [of 3 cy] round_to_error [of 3 cz]
    by (simp_all add: ex_def ey_def ez_def)
  have "0 \<le> cx\<^sup>2" "0 \<le> cy\<^sup>2" "0 \<le> cz\<^sup>2" by simp_all
  with unit have "cx\<^sup>2 \<le> 1" "cy\<^sup>2 \<le> 1" "cz\<^sup>2 \<le> 1" by linarith+
  then have c: "\<bar>cx\<bar> \<le> 1" "\<bar>cy\<bar> \<le> 1" "\<bar>cz\<bar> \<le> 1"
    by (simp_all only: abs_square_le_1)
  have prod: "\<bar>c * e\<bar> \<le> 1 / 2000" if "\<bar>c\<bar> \<le> 1" "\<bar>e\<bar> \<le> 1 / 2000" for c e :: real
  proof -
    have "\<bar>c\<bar> * \<bar>e\<bar> \<le> 1 * (1 / 2000)" using that by (intro mult_mono) simp_all
    then show ?thesis by (simp add: abs_mult)
  qed
  have sq: "e\<^sup>2 \<le> 1 / 4000000" if "\<bar>e\<bar> \<le> 1 / 2000" for e :: real
  proof -
    have "\<bar>e\<bar> * \<bar>e\<bar> \<le> (1 / 2000) * (1 / 2000)" using that by (intro mult_mono) simp_all
    then show ?thesis by (simp add: power2_eq_square)
  qed
  define N where "N = round_to 3 cx * round_to 3 cx + round_to 3 cy * round_to 3 cy +
                      round_to 3 cz * round_to 3 cz"
  have "N = (cx + ex)\<^sup>2 + (cy + ey)\<^sup>2 + (cz + ez)\<^sup>2"
    by (simp add: N_def ex_def ey_def ez_def power2_eq_square)
  also have "\<dots> = (cx\<^sup>2 + cy\<^sup>2 + cz\<^sup>2) + 2 * (cx * ex) + 2 * (cy * ey) + 2 * (cz * ez) +
                  ex\<^sup>2 + ey\<^sup>2 + ez\<^sup>2"
    by (simp add: power2_sum)
  finally have N: "N = 1 + 2 * (cx * ex) + 2 * (cy * ey) + 2 * (cz * ez) + ex\<^sup>2 + ey\<^sup>2 + ez\<^sup>2"
    using unit by simp
  define px py pz where "px = cx * ex" and "py = cy * ey" and "pz = cz * ez"
  define sx sy sz where "sx = ex\<^sup>2" and "sy = ey\<^sup>2" and "sz = ez\<^sup>2"
  have p: "\<bar>px\<bar> \<le> 1 / 2000" "\<bar>py\<bar> \<le> 1 / 2000" "\<bar>pz\<bar> \<le> 1 / 2000"
    unfolding px_def py_def pz_def using c e by (simp_all only: prod)
  have s: "sx \<le> 1 / 4000000" "sy \<le> 1 / 4000000" "sz \<le> 1 / 4000000"
    unfolding sx_def sy_def sz_def using e by (simp_all only: sq)
  have s0: "0 \<le> sx" "0 \<le> sy" "0 \<le> sz"
    unfolding sx_def sy_def sz_def by simp_all
  have N': "N = 1 + 2 * px + 2 * py + 2 * pz + sx + sy + sz"
    using N by (simp add: px_def py_def pz_def sx_def sy_def sz_def)
  have lo: "997 / 1000 \<le> N" using N' p s0 by linarith
  have hi: "N \<le> 10031 / 10000" using N' p s by linarith
  have "(998 / 1000)\<^sup>2 \<le> N" using lo by (simp add: power2_eq_square)
  then have "998 / 1000 \<le> sqrt N" by (rule real_le_rsqrt)
  then show "0.998 \<le> sqrt (round_to 3 cx * round_to 3 cx + round_to 3 cy * round_to 3 cy +
                        round_to 3 cz * round_to 3 cz)"
    unfolding N_def by simp
  have "N \<le> (1002 / 1000)\<^sup>2" using hi by (simp add: power2_eq_square)
  then have "sqrt N \<le> 1002 / 1000" by (intro real_le_lsqrt) simp_all
  then show "sqrt (round_to 3 cx * round_to 3 cx + round_to 3 cy * round_to 3 cy +
               round_to 3 cz * round_to 3 cz) \<le> 1.002"
    unfolding N_def by simp
qed


text \<open>
  C5. The translation of a star is the composed rotation (about the up axis by the right
  ascension, about the right axis by the declination) applied to the forward unit vector,
  each component rounded to three decimals. For finite right ascension and declination
  its Euclidean norm lies between 0.998 and 1.002.
\<close>

theorem translation_near_unit:
  assumes "finite_number ra" "finite_number de"
  shows "translation (snd (computeTransform s ra de mag)) =
           (let q = mul2 (scr_q s) (setFromAxisAngle (scr_q1 s) UP ra)
                      (setFromAxisAngle (scr_q2 s) RIGHT de);
                coords = transformVector q FORWARD
            in [toFixed_parsed 3 (vx coords), toFixed_parsed 3 (vy coords),
                toFixed_parsed 3 (vz coords)]) \<and>
         (\<exists>n. vec_norm (translation (snd (computeTransform s ra de mag))) = Some n \<and>
              0.998 \<le> n \<and> n \<le> 1.002)"
proof -
  from assms obtain a b where ab: "ra = Fin a" "\<bar>a\<bar> < max_bound" "de = Fin b" "\<bar>b\<bar> < max_bound"
    by (auto simp: finite_number_def split: jsnum.splits)
  from translation_real [OF ab(2) ab(4), of s mag] obtain cx cy cz where
    c: "cx\<^sup>2 + cy\<^sup>2 + cz\<^sup>2 = 1"
      "translation (snd (computeTransform s (Fin a) (Fin b) mag)) =
         [Fin (round_to 3 cx), Fin (round_to 3 cy), Fin (round_to 3 cz)]"
    by blast
  have "translation (snd (computeTransform s ra de mag)) =
           (let q = mul2 (scr_q s) (setFromAxisAngle (scr_q1 s) UP ra)
                      (setFromAxisAngle (scr_q2 s) RIGHT de);
                coords = transformVector q FORWARD
            in [toFixed_parsed 3 (vx coords), toFixed_parsed 3 (vy coords),
                toFixed_parsed 3 (vz coords)])"
    by (simp add: computeTransform_def Let_def)
  moreover have "\<exists>n. vec_norm (translation (snd (computeTransform s ra de mag))) = Some n \<and>
              0.998 \<le> n \<and> n \<le> 1.002"
    using rounded_unit_norm [OF c(1)] by (simp add: ab c(2) vec_norm_def)
  ultimately show ?thesis by blast
qed

theorem translation_near_unit_witness:
  "finite_number (Fin (243089 / 2400)) \<and> finite_number (Fin (- (30089 / 1800))) \<and>
   (\<exists>n. vec_norm (translation (snd (computeTransform new_scratch (Fin (243089 / 2400))
                                      (Fin (- (30089 / 1800))) (Fin (- (73 / 50)))))) = Some n \<and>
        0.998 \<le> n \<and> n \<le> 1.002)"
proof -
  have f: "finite_number (Fin (243089 / 2400))" "finite_number (Fin (- (30089 / 1800)))"
    by (simp_all add: finite_number_def max_bound_def)
  from translation_near_unit [OF f] f show ?thesis by blast
qed

end
